theory Spec2Isabelle
  imports Main "HOL-Library.Multiset"
begin

text \<open>
  A shallow embedding of the replication engine of MetaExodus: the planner
  (\<open>DataService.sortTablesByDependencies\<close>), the enum transformer
  (\<open>DataTransformationService\<close>), the loader (\<open>DataService.insertBatch\<close>,
  \<open>insertTableData\<close>), the executor (\<open>SyncOrchestratorService\<close>) and the environment
  validation (\<open>utils/env.js\<close>). Every definition follows the JavaScript source; logging,
  spinners, progress bars and timestamps are left out, since nothing below depends on them.
  The target database, the Metabase API and the other collaborators are oracles: functions
  from a world state \<open>'w\<close> to a result and the next world state, about which nothing is
  assumed.
\<close>

section \<open>JavaScript values and strings\<close>

text \<open>
  The values a row can hold. Numbers are integers here: no definition below does
  arithmetic on a row's value. \<open>JFunction k\<close> is the built-in function that
  \<open>Object.prototype\<close> holds under the key \<open>k\<close>.
\<close>

datatype jsval = JUndefined | JNull | JBool bool | JNum int | JStr string
  | JArr "jsval list" | JObj "(string \<times> jsval) list" | JFunction string

text \<open>
  A plain object (\<open>{}\<close>, an object literal, \<open>{...row}\<close>) is given by its own properties,
  and a read \<open>obj[key]\<close> of a key that is not an own property goes on to
  \<open>Object.prototype\<close>. These are the keys found there: eleven functions and the accessor
  \<open>__proto__\<close>, which reads as \<open>Object.prototype\<close> itself, an object without an
  enumerable property. A key found nowhere reads as \<open>undefined\<close>.
\<close>

definition objectPrototypeKeys :: "string list" where
  "objectPrototypeKeys =
     [''constructor'', ''__defineGetter__'', ''__defineSetter__'', ''hasOwnProperty'',
      ''__lookupGetter__'', ''__lookupSetter__'', ''isPrototypeOf'', ''propertyIsEnumerable'',
      ''toString'', ''valueOf'', ''__proto__'', ''toLocaleString'']"

definition inheritedProperty :: "string \<Rightarrow> jsval" where
  "inheritedProperty k =
     (if k = ''__proto__'' then JObj []
      else if k \<in> set objectPrototypeKeys then JFunction k
      else JUndefined)"

text \<open>
  A row is a plain object: an association list of its own properties, in key order.
  \<open>getProp\<close> is the read \<open>row[k]\<close>; \<open>setProp\<close> assigns an own property, in place when
  the key exists and at the end otherwise.
\<close>

type_synonym row = "(string \<times> jsval) list"

definition getProp :: "row \<Rightarrow> string \<Rightarrow> jsval" where
  "getProp r k = (case map_of r k of None \<Rightarrow> inheritedProperty k | Some v \<Rightarrow> v)"

fun objSet :: "('k \<times> 'v) list \<Rightarrow> 'k \<Rightarrow> 'v \<Rightarrow> ('k \<times> 'v) list" where
  "objSet [] k v = [(k, v)]"
| "objSet ((k', v') # r) k v = (if k' = k then (k, v) # r else (k', v') # objSet r k v)"

definition setProp :: "row \<Rightarrow> string \<Rightarrow> jsval \<Rightarrow> row" where
  "setProp r k v = objSet r k v"

text \<open>
  An object used as a dictionary of string arrays (\<open>dependencies\<close>, \<open>enumMap\<close>) is the
  map of its own properties. \<open>readArray\<close> is the read \<open>obj[key]\<close>: the own array, a
  member inherited from \<open>Object.prototype\<close> (which is truthy and is no array), or
  \<open>undefined\<close>.
\<close>

datatype array_property = ArrayOf "string list" | InheritedMember | NoProperty

definition readArray :: "(string \<rightharpoonup> string list) \<Rightarrow> string \<Rightarrow> array_property" where
  "readArray obj key =
     (case obj key of
        Some xs \<Rightarrow> ArrayOf xs
      | None \<Rightarrow> if key \<in> set objectPrototypeKeys then InheritedMember else NoProperty)"

text \<open>
  A thrown error: its message and, when a collaborator attached one, its \<open>details\<close>.
  \<open>new Error(msg)\<close> has none, and neither has the \<open>TypeError\<close> the runtime raises when
  a value that is no function is called.
\<close>

record js_error =
  message :: string
  details :: "string option"

definition Error :: "string \<Rightarrow> js_error" where
  "Error msg = \<lparr>message = msg, details = None\<rparr>"

definition TypeError :: "string \<Rightarrow> js_error" where
  "TypeError msg = \<lparr>message = msg, details = None\<rparr>"

text \<open>
  Strings. A character of HOL has eight bits: it stands for the UTF-16 code unit of the
  same number, so a \<open>string\<close> is a JavaScript string whose code units are below
  \<open>U+0100\<close>. On these \<open>toLowerCase\<close> maps \<open>A\<close> to \<open>Z\<close> (65 to 90) and the capital
  letters \<open>U+00C0\<close> to \<open>U+00DE\<close> (192 to 222) other than the sign \<open>U+00D7\<close> (215) to
  the letter 32 places on, and leaves every other code unit as it is.
  \<open>str_includes s t\<close> is \<open>s.includes(t)\<close>.
\<close>

definition toLowerCase :: "string \<Rightarrow> string" where
  "toLowerCase s =
     map (\<lambda>c. let n = (of_char c :: nat) in
               if (65 \<le> n \<and> n \<le> 90) \<or> (192 \<le> n \<and> n \<le> 222 \<and> n \<noteq> 215)
               then char_of (n + 32) else c) s"

fun startsWith :: "string \<Rightarrow> string \<Rightarrow> bool" where
  "startsWith s [] = True"
| "startsWith [] (p # ps) = False"
| "startsWith (c # cs) (p # ps) = (c = p \<and> startsWith cs ps)"

definition endsWith :: "string \<Rightarrow> string \<Rightarrow> bool" where
  "endsWith s suffix = startsWith (rev s) (rev suffix)"

fun str_includes :: "string \<Rightarrow> string \<Rightarrow> bool" where
  "str_includes [] needle = (needle = [])"
| "str_includes (c # cs) needle = (startsWith (c # cs) needle \<or> str_includes cs needle)"

text \<open>
  The white space and line terminators that \<open>trim\<close>, \<open>Number\<close> and \<open>parseInt\<close> strip:
  among the code units below \<open>U+0100\<close> these are tab, line feed, vertical tab, form
  feed, carriage return (9 to 13), space (32) and the no-break space (160).
\<close>

definition isWhiteSpace :: "char \<Rightarrow> bool" where
  "isWhiteSpace c =
     (let n = (of_char c :: nat) in n = 32 \<or> (9 \<le> n \<and> n \<le> 13) \<or> n = 160)"

definition trim :: "string \<Rightarrow> string" where
  "trim s = rev (dropWhile isWhiteSpace (rev (dropWhile isWhiteSpace s)))"

fun join :: "string \<Rightarrow> string list \<Rightarrow> string" where
  "join sep [] = []"
| "join sep [x] = x"
| "join sep (x # y # ys) = x @ sep @ join sep (y # ys)"

text \<open>A natural number in a template literal: its decimal digits.\<close>

function showNat :: "nat \<Rightarrow> string" where
  "showNat n =
     (if n < 10 then [char_of (48 + n)] else showNat (n div 10) @ [char_of (48 + n mod 10)])"
  by pat_completeness auto
termination by (relation "measure id") auto

text \<open>
  \<open>x || d\<close> on a string that may be missing: the default \<open>d\<close> replaces \<open>undefined\<close> and
  the empty string. \<open>orUndefined\<close> is a missing string inside a template literal.
\<close>

definition orElse :: "string option \<Rightarrow> string \<Rightarrow> string" where
  "orElse m d = (case m of None \<Rightarrow> d | Some s \<Rightarrow> if s = [] then d else s)"

definition orUndefined :: "string option \<Rightarrow> string" where
  "orUndefined m = (case m of None \<Rightarrow> ''undefined'' | Some s \<Rightarrow> s)"

section \<open>Planner: \<open>DataService.sortTablesByDependencies\<close>\<close>

text \<open>
  The JavaScript source keeps three pieces of mutable state while it sorts: the result
  array \<open>sorted\<close> and the two sets \<open>visited\<close> and \<open>visiting\<close>. They are the fields of
  \<open>sort_state\<close> (the array is called \<open>sortedL\<close>, since \<open>sorted\<close> is a constant of HOL).
  The \<open>dependencies\<close> object is a plain object whose own properties map a table name to
  the array of the tables it references, as \<open>getTableDependencies\<close> builds it.
\<close>

record sort_state =
  sortedL :: "string list"
  visited :: "string set"
  visiting :: "string set"

text \<open>
  \<open>visit\<close> is the closure of the same name; \<open>visit_deps\<close> is its
  \<open>deps.forEach((dep) => { if (tableNames.includes(dep)) visit(dep); })\<close>. In
  \<open>const deps = dependencies[tableName] || []\<close> an own array is truthy, also when it is
  empty, and a missing key gives \<open>[]\<close>; a member inherited from \<open>Object.prototype\<close> is
  truthy too and has no \<open>forEach\<close>, so that the call of \<open>deps.forEach\<close> raises a
  \<open>TypeError\<close>, which leaves \<open>visit\<close>, the loops and the function.
\<close>

function visit ::
    "string list \<Rightarrow> (string \<rightharpoonup> string list) \<Rightarrow> string \<Rightarrow> sort_state \<Rightarrow> js_error + sort_state"
  and visit_deps ::
    "string list \<Rightarrow> (string \<rightharpoonup> string list) \<Rightarrow> string list \<Rightarrow> sort_state \<Rightarrow> js_error + sort_state"
where
  "visit tableNames dependencies tableName s =
     (if tableName \<in> visiting s then Inr s
      else if tableName \<in> visited s then Inr s
      else
        let s1 = s\<lparr>visiting := insert tableName (visiting s)\<rparr> in
        case readArray dependencies tableName of
          InheritedMember \<Rightarrow> Inl (TypeError ''deps.forEach is not a function'')
        | NoProperty \<Rightarrow>
            Inr (s1\<lparr>sortedL := sortedL s1 @ [tableName],
                    visited := insert tableName (visited s1),
                    visiting := visiting s1 - {tableName}\<rparr>)
        | ArrayOf deps \<Rightarrow>
            (case visit_deps tableNames dependencies deps s1 of
               Inl e \<Rightarrow> Inl e
             | Inr s2 \<Rightarrow>
                 Inr (s2\<lparr>sortedL := sortedL s2 @ [tableName],
                         visited := insert tableName (visited s2),
                         visiting := visiting s2 - {tableName}\<rparr>)))"
| "visit_deps tableNames dependencies [] s = Inr s"
| "visit_deps tableNames dependencies (dep # rest) s =
     (if dep \<in> set tableNames then
        (case visit tableNames dependencies dep s of
           Inl e \<Rightarrow> Inl e
         | Inr s' \<Rightarrow> visit_deps tableNames dependencies rest s')
      else visit_deps tableNames dependencies rest s)"
  by pat_completeness auto

text \<open>
  The recursion is nested (the state a call returns is the state of the next call), so
  termination needs a fact about the result first: on its domain, a call that returns
  leaves \<open>visiting\<close> as it found it.
\<close>

lemma visiting_preserved:
  "visit_visit_deps_dom (Inl (tn, dm, t, s)) \<Longrightarrow>
     \<forall>s'. visit tn dm t s = Inr s' \<longrightarrow> visiting s' = visiting s"
  "visit_visit_deps_dom (Inr (tn, dm, ds, s)) \<Longrightarrow>
     \<forall>s'. visit_deps tn dm ds s = Inr s' \<longrightarrow> visiting s' = visiting s"
proof (induction tn dm t s and tn dm ds s rule: visit_visit_deps.pinduct)
  case (1 tn dm t s)
  note eq = visit.psimps[OF 1(1)]
  show ?case
  proof (cases "t \<in> visiting s \<or> t \<in> visited s")
    case True
    then have "visit tn dm t s = Inr s" unfolding eq by auto
    then show ?thesis by simp
  next
    case False
    then have F: "t \<notin> visiting s" "t \<notin> visited s" by simp_all
    show ?thesis
    proof (cases "readArray dm t")
      case (ArrayOf deps)
      from 1(2)[OF F refl ArrayOf]
      have IH: "\<forall>s'. visit_deps tn dm deps (s\<lparr>visiting := insert t (visiting s)\<rparr>) = Inr s' \<longrightarrow>
                  visiting s' = insert t (visiting s)"
        by simp
      show ?thesis
      proof (cases "visit_deps tn dm deps (s\<lparr>visiting := insert t (visiting s)\<rparr>)")
        case (Inl e)
        then have "visit tn dm t s = Inl e" unfolding eq using F ArrayOf by (simp add: Let_def)
        then show ?thesis by simp
      next
        case (Inr s2)
        then have "visit tn dm t s =
            Inr (s2\<lparr>sortedL := sortedL s2 @ [t], visited := insert t (visited s2),
                    visiting := visiting s2 - {t}\<rparr>)"
          unfolding eq using F ArrayOf by (simp add: Let_def)
        moreover have "visiting s2 = insert t (visiting s)" using IH Inr by simp
        ultimately show ?thesis using F by auto
      qed
    next
      case InheritedMember
      then have "visit tn dm t s = Inl (TypeError ''deps.forEach is not a function'')"
        unfolding eq using F by (simp add: Let_def)
      then show ?thesis by simp
    next
      case NoProperty
      then have "visit tn dm t s =
          Inr (s\<lparr>visiting := insert t (visiting s),
                  sortedL := sortedL s @ [t], visited := insert t (visited s),
                  visiting := insert t (visiting s) - {t}\<rparr>)"
        unfolding eq using F by (simp add: Let_def)
      then show ?thesis using F by auto
    qed
  qed
next
  case (2 tn dm s)
  then show ?case by (simp add: visit_deps.psimps)
next
  case (3 tn dm d rest s)
  note eq = visit_deps.psimps(2)[OF 3(1)]
  show ?case
  proof (cases "d \<in> set tn")
    case False
    then have "visit_deps tn dm (d # rest) s = visit_deps tn dm rest s" unfolding eq by simp
    then show ?thesis using 3(4)[OF False] by simp
  next
    case True
    show ?thesis
    proof (cases "visit tn dm d s")
      case (Inl e)
      then have "visit_deps tn dm (d # rest) s = Inl e" unfolding eq using True by simp
      then show ?thesis by simp
    next
      case (Inr x)
      then have "visit_deps tn dm (d # rest) s = visit_deps tn dm rest x"
        unfolding eq using True by simp
      moreover have "visiting x = visiting s" using 3(2)[OF True] Inr by simp
      ultimately show ?thesis using 3(3)[OF True Inr] by simp
    qed
  qed
qed

termination visit
proof (relation "inv_image (less_than <*lex*> less_than <*lex*> less_than)
      (\<lambda>x. case x of
         Inl (tn, dm, t, s) \<Rightarrow>
           (card (set tn - visiting s) + (if t \<in> set tn then 0 else 1), 0::nat, 0::nat)
       | Inr (tn, dm, ds, s) \<Rightarrow> (card (set tn - visiting s), 1, length ds))", goal_cases)
  case 1
  show ?case by (intro wf_inv_image wf_lex_prod wf_less_than)
next
  case (2 tn dm t s s1 ds)
  have "t \<in> set tn \<Longrightarrow> card (set tn - insert t (visiting s)) < card (set tn - visiting s)"
    using 2(1) by (intro psubset_card_mono) auto
  moreover have "t \<notin> set tn \<Longrightarrow> set tn - insert t (visiting s) = set tn - visiting s"
    by auto
  ultimately show ?case using 2 by auto
next
  case (3 tn dm d rest s)
  then show ?case by simp
next
  case (4 tn dm d rest s s')
  then show ?case by (auto simp: visiting_preserved)
next
  case (5 tn dm d rest s)
  then show ?case by simp
qed

text \<open>
  The top-level \<open>tableNames.forEach\<close>: a table not yet visited is visited. The function
  returns the array \<open>sorted\<close>, unless a \<open>TypeError\<close> has ended it.
\<close>

fun visit_all ::
  "string list \<Rightarrow> (string \<rightharpoonup> string list) \<Rightarrow> string list \<Rightarrow> sort_state \<Rightarrow> js_error + sort_state" where
  "visit_all tableNames dependencies [] s = Inr s"
| "visit_all tableNames dependencies (tableName # rest) s =
     (if tableName \<notin> visited s then
        (case visit tableNames dependencies tableName s of
           Inl e \<Rightarrow> Inl e
         | Inr s' \<Rightarrow> visit_all tableNames dependencies rest s')
      else visit_all tableNames dependencies rest s)"

definition sortTablesByDependencies ::
  "string list \<Rightarrow> (string \<rightharpoonup> string list) \<Rightarrow> js_error + string list" where
  "sortTablesByDependencies tableNames dependencies =
     (case visit_all tableNames dependencies tableNames
             \<lparr>sortedL = [], visited = {}, visiting = {}\<rparr> of
        Inl e \<Rightarrow> Inl e
      | Inr s \<Rightarrow> Inr (sortedL s))"

text \<open>
  A table as the Metabase metadata gives it: \<open>{id, name}\<close>. Clearing and rollback
  (\<open>SyncOrchestratorService.clearExistingData\<close>, \<open>performRollback\<close>) delete in the order
  \<open>sortTablesByDependencies(tables.map(t => t.name), dependencies).reverse()\<close>.
\<close>

record table =
  tid :: int
  tname :: string

definition clearingOrder :: "table list \<Rightarrow> (string \<rightharpoonup> string list) \<Rightarrow> js_error + string list" where
  "clearingOrder tables dependencies =
     (case sortTablesByDependencies (map tname tables) dependencies of
        Inl e \<Rightarrow> Inl e
      | Inr sorted_names \<Rightarrow> Inr (rev sorted_names))"

text \<open>The fixture of the topological-ordering scenario.\<close>

definition shopTables :: "table list" where
  "shopTables = [\<lparr>tid = 1, tname = ''users''\<rparr>, \<lparr>tid = 2, tname = ''orders''\<rparr>,
                 \<lparr>tid = 3, tname = ''products''\<rparr>, \<lparr>tid = 4, tname = ''order_items''\<rparr>]"

definition shopDependencies :: "string \<rightharpoonup> string list" where
  "shopDependencies = [''orders'' \<mapsto> [''users''],
                       ''order_items'' \<mapsto> [''orders'', ''products'']]"


section \<open>Transformer: \<open>DataTransformationService\<close>\<close>

text \<open>
  The service's only state is \<open>transformationStats\<close>, with the three counters the
  constructor and \<open>resetStats\<close> give it.
\<close>

record transformationStats =
  totalTransformations :: nat
  enumTransformations :: nat
  nullTransformations :: nat

definition resetStats :: transformationStats where
  "resetStats = \<lparr>totalTransformations = 0, enumTransformations = 0, nullTransformations = 0\<rparr>"

text \<open>
  \<open>isCommonAbbreviation\<close>: the table \<open>abbreviations\<close> in the order of
  \<open>Object.entries\<close>, and the loop over it that returns \<open>true\<close> at the first entry that
  relates the two values.
\<close>

definition abbreviations :: "(string \<times> string list) list" where
  "abbreviations =
     [(''activity'', [''act'', ''activities'']),
      (''individual'', [''ind'', ''person'', ''user'']),
      (''group'', [''grp'', ''team'']),
      (''event'', [''evt'', ''event_details'']),
      (''news'', [''news_details'']),
      (''notification'', [''notif'', ''notify''])]"

fun abbreviation_loop :: "string \<Rightarrow> string \<Rightarrow> (string \<times> string list) list \<Rightarrow> bool" where
  "abbreviation_loop value1 value2 [] = False"
| "abbreviation_loop value1 value2 ((full, abbrevs) # rest) =
     (if (value1 = full \<and> value2 \<in> set abbrevs) \<or>
         (value2 = full \<and> value1 \<in> set abbrevs)
      then True
      else abbreviation_loop value1 value2 rest)"

definition isCommonAbbreviation :: "string \<Rightarrow> string \<Rightarrow> bool" where
  "isCommonAbbreviation value1 value2 = abbreviation_loop value1 value2 abbreviations"

text \<open>
  \<open>findPartialMatch\<close>: one pass over the valid values in catalog order; a value is
  returned as soon as it matches by containment (either way, lower-cased) or by the
  abbreviation table. \<open>None\<close> is \<open>null\<close>.
\<close>

fun partialMatch_loop :: "string \<Rightarrow> string list \<Rightarrow> string option" where
  "partialMatch_loop current [] = None"
| "partialMatch_loop current (valid # rest) =
     (let validLower = toLowerCase valid in
      if str_includes validLower current \<or> str_includes current validLower then Some valid
      else if isCommonAbbreviation current validLower then Some valid
      else partialMatch_loop current rest)"

definition findPartialMatch :: "string \<Rightarrow> string list \<Rightarrow> string option" where
  "findPartialMatch currentValue validValues =
     partialMatch_loop (toLowerCase currentValue) validValues"

text \<open>
  \<open>if (closeMatch)\<close> and \<open>if (partialMatch)\<close> test truthiness: a string that was found
  and is not empty.
\<close>

definition truthy :: "string option \<Rightarrow> bool" where
  "truthy m = (case m of None \<Rightarrow> False | Some s \<Rightarrow> s \<noteq> [])"

definition fromNullable :: "string option \<Rightarrow> jsval" where
  "fromNullable m = (case m of None \<Rightarrow> JNull | Some s \<Rightarrow> JStr s)"

text \<open>
  \<open>transformEnumValue\<close>. A current value that is not a string has no \<open>toLowerCase\<close>:
  the call raises a \<open>TypeError\<close>. Both the default path and the empty-catalog path
  increment \<open>nullTransformations\<close>.
\<close>

definition transformEnumValue ::
  "jsval \<Rightarrow> string list \<Rightarrow> transformationStats \<Rightarrow> (js_error + jsval) \<times> transformationStats" where
  "transformEnumValue currentValue validValues st =
     (case currentValue of
        JStr cur \<Rightarrow>
          (let closeMatch = find (\<lambda>valid. toLowerCase valid = toLowerCase cur) validValues in
           if truthy closeMatch then (Inr (fromNullable closeMatch), st)
           else
             let partialMatch = findPartialMatch cur validValues in
             if truthy partialMatch then (Inr (fromNullable partialMatch), st)
             else
               (case validValues of
                  defaultValue # _ \<Rightarrow>
                    (Inr (JStr defaultValue),
                     st\<lparr>nullTransformations := nullTransformations st + 1\<rparr>)
                | [] \<Rightarrow>
                    (Inr JNull, st\<lparr>nullTransformations := nullTransformations st + 1\<rparr>)))
      | _ \<Rightarrow> (Inl (TypeError ''currentValue.toLowerCase is not a function''), st))"

text \<open>
  A column of the schema that \<open>getEnumColumns\<close> returned, and the enum catalog
  \<open>enumMap\<close>: a plain object whose own properties map an enum type name to its labels
  in declared order, as \<open>discoverEnumValues\<close> builds it.
\<close>

record enum_column =
  column_name :: string
  udt_name :: string

type_synonym enum_map = "string \<rightharpoonup> string list"

text \<open>\<open>validValues.includes(currentValue)\<close>: strict equality with one of the labels.\<close>

definition arrayIncludes :: "string list \<Rightarrow> jsval \<Rightarrow> bool" where
  "arrayIncludes xs v = (case v of JStr s \<Rightarrow> s \<in> set xs | _ \<Rightarrow> False)"

text \<open>
  The body of \<open>enumColumns.forEach\<close> for one column of one row, then the \<open>forEach\<close>
  itself and \<open>data.map\<close>. In \<open>const validValues = enumMap[enumName] || []\<close> an own
  array is kept and a missing key gives \<open>[]\<close>; a member inherited from
  \<open>Object.prototype\<close> is kept too and has no \<open>includes\<close>, so that the call of
  \<open>validValues.includes\<close> raises a \<open>TypeError\<close>. The statistics are mutated in place, so
  they are returned also when a \<open>TypeError\<close> ends the call.
\<close>

definition transformColumn ::
  "enum_map \<Rightarrow> enum_column \<Rightarrow> row \<Rightarrow> transformationStats \<Rightarrow>
     (js_error + row) \<times> transformationStats" where
  "transformColumn enumMap col transformedRow st =
     (let columnName = column_name col;
          enumName = udt_name col;
          currentValue = getProp transformedRow columnName
      in if currentValue \<noteq> JNull \<and> currentValue \<noteq> JUndefined then
           (case readArray enumMap enumName of
              InheritedMember \<Rightarrow>
                (Inl (TypeError ''validValues.includes is not a function''), st)
            | property \<Rightarrow>
                (let validValues = (case property of ArrayOf labels \<Rightarrow> labels | _ \<Rightarrow> []) in
                 if \<not> arrayIncludes validValues currentValue then
                   (case transformEnumValue currentValue validValues st of
                      (Inl e, st') \<Rightarrow> (Inl e, st')
                    | (Inr transformedValue, st') \<Rightarrow>
                        if transformedValue \<noteq> currentValue
                        then (Inr (setProp transformedRow columnName transformedValue),
                              st'\<lparr>enumTransformations := enumTransformations st' + 1\<rparr>)
                        else (Inr transformedRow, st'))
                 else (Inr transformedRow, st)))
         else (Inr transformedRow, st))"

fun transformRow ::
  "enum_map \<Rightarrow> enum_column list \<Rightarrow> row \<Rightarrow> transformationStats \<Rightarrow>
     (js_error + row) \<times> transformationStats" where
  "transformRow enumMap [] r st = (Inr r, st)"
| "transformRow enumMap (col # cols) r st =
     (case transformColumn enumMap col r st of
        (Inl e, st') \<Rightarrow> (Inl e, st')
      | (Inr r', st') \<Rightarrow> transformRow enumMap cols r' st')"

fun transformRows ::
  "enum_map \<Rightarrow> enum_column list \<Rightarrow> row list \<Rightarrow> transformationStats \<Rightarrow>
     (js_error + row list) \<times> transformationStats" where
  "transformRows enumMap enumColumns [] st = (Inr [], st)"
| "transformRows enumMap enumColumns (r # rest) st =
     (case transformRow enumMap enumColumns r st of
        (Inl e, st') \<Rightarrow> (Inl e, st')
      | (Inr r', st') \<Rightarrow>
          (case transformRows enumMap enumColumns rest st' of
             (Inl e, st'') \<Rightarrow> (Inl e, st'')
           | (Inr rest', st'') \<Rightarrow> (Inr (r' # rest'), st'')))"

text \<open>
  \<open>transformTableData(connection, tableName, data, enumMap)\<close>. The collaborator
  \<open>schemaDiscoveryService.getEnumColumns(connection, tableName, enumMap)\<close> is the oracle
  \<open>getEnumCols\<close>; it is asked only when there is data.
\<close>

definition transformTableData ::
  "('w \<Rightarrow> string \<Rightarrow> enum_map \<Rightarrow> enum_column list \<times> 'w) \<Rightarrow> string \<Rightarrow> row list \<Rightarrow> enum_map \<Rightarrow>
     transformationStats \<times> 'w \<Rightarrow> (js_error + row list) \<times> transformationStats \<times> 'w" where
  "transformTableData getEnumCols tName data enumMap stw =
     (if length data = 0 then (Inr data, stw)
      else
        (case getEnumCols (snd stw) tName enumMap of
           (enumColumns, w') \<Rightarrow>
             if length enumColumns = 0 then (Inr data, fst stw, w')
             else
               (case transformRows enumMap enumColumns data (fst stw) of
                  (Inl e, st') \<Rightarrow> (Inl e, st', w')
                | (Inr transformedData, st') \<Rightarrow>
                    (Inr transformedData,
                     st'\<lparr>totalTransformations :=
                          totalTransformations st' + length transformedData\<rparr>,
                     w'))))"

section \<open>Loader: \<open>DataService.insertBatch\<close> and \<open>insertTableData\<close>\<close>

text \<open>
  The target connection is an oracle: \<open>connection.query(text, values)\<close> either raises
  an error or resolves to a result with a \<open>rowCount\<close> (which the driver may leave
  \<open>null\<close>) and \<open>rows\<close>, and moves the world on. \<open>result.rowCount || 0\<close> is
  \<open>rowCountOr0\<close>.
\<close>

record query_result =
  rowCount :: "nat option"
  rows :: "row list"

type_synonym 'w connection = "'w \<Rightarrow> string \<Rightarrow> jsval list \<Rightarrow> (js_error + query_result) \<times> 'w"

definition rowCountOr0 :: "query_result \<Rightarrow> nat" where
  "rowCountOr0 res = (case rowCount res of None \<Rightarrow> 0 | Some n \<Rightarrow> n)"

text \<open>
  The results. \<open>insertBatch\<close> returns \<open>{insertedRows}\<close>, with \<open>rowErrors\<close> only after
  the per-row fallback; \<open>insertTableData\<close> returns
  \<open>{tableName, insertedRows, totalRows, success, batches, errors}\<close>, without \<open>errors\<close> when
  there was no data. Both records extend \<open>inserted\<close>, so \<open>insertedRows\<close> reads either.
  The fields of an entry of \<open>rowErrors\<close> and of \<open>errors\<close> carry a prefix, since a field
  name is a constant; \<open>timestamp\<close> is left out.
\<close>

record row_error =
  re_rowIndex :: nat
  re_error :: string
  re_sampleRow :: row

record inserted =
  insertedRows :: nat

record batch_result = inserted +
  rowErrors :: "row_error list option"

record batch_error =
  be_batchNumber :: nat
  be_batchSize :: nat
  be_error :: string

record insert_result = inserted +
  tableName :: string
  totalRows :: nat
  success :: bool
  batches :: nat
  errors :: "batch_error list option"

text \<open>
  The effective column set: \<open>dataKeys\<close> is the union of the keys of the batch's rows in
  first-seen order (\<open>Array.from(dataKeySet)\<close>), \<open>validColumns\<close> the target's column
  names that are among them. \<open>columnNames\<close> are the \<open>column_name\<close> values as the
  catalog query returned them; only a string can equal a key.
\<close>

definition dataKeys :: "row list \<Rightarrow> string list" where
  "dataKeys batch =
     fold (\<lambda>row keys. fold (\<lambda>k keys. if k \<in> set keys then keys else keys @ [k]) (map fst row) keys)
          batch []"

definition validColumns :: "jsval list \<Rightarrow> row list \<Rightarrow> string list" where
  "validColumns columnNames batch =
     List.map_filter (\<lambda>col. case col of
                        JStr c \<Rightarrow> if c \<in> set (dataKeys batch) then Some c else None
                      | _ \<Rightarrow> None) columnNames"

text \<open>The statement text: quoted identifiers, numbered placeholders, conflict suffix.\<close>

definition quoteIdent :: "string \<Rightarrow> string" where
  "quoteIdent col = [CHR 0x22] @ col @ [CHR 0x22]"

definition conflictSuffix :: "string \<Rightarrow> string list \<Rightarrow> string" where
  "conflictSuffix onConflict cols =
     (if onConflict = ''skip'' then '' ON CONFLICT DO NOTHING''
      else if onConflict = ''update'' then
        '' ON CONFLICT DO UPDATE SET '' @
          join '', '' (map (\<lambda>col. quoteIdent col @ '' = EXCLUDED.'' @ quoteIdent col) cols)
      else [])"

definition placeholders :: "nat \<Rightarrow> nat \<Rightarrow> string" where
  "placeholders nRows nCols =
     join '', '' (map (\<lambda>rowIndex.
        ''('' @ join '', '' (map (\<lambda>colIndex. ''$'' @ showNat (rowIndex * nCols + colIndex + 1))
                              [0 ..< nCols]) @ '')'') [0 ..< nRows])"

definition insertQuery :: "string \<Rightarrow> string list \<Rightarrow> nat \<Rightarrow> string \<Rightarrow> string" where
  "insertQuery tName cols nRows onConflict =
     ''INSERT INTO '' @ quoteIdent tName @ '' ('' @ join '', '' (map quoteIdent cols) @
     '') VALUES '' @ placeholders nRows (length cols) @ conflictSuffix onConflict cols"

text \<open>
  One parameter value. \<open>JSON.stringify\<close> belongs to the runtime; it is the parameter
  \<open>stringify\<close> of every definition that prepares values.
\<close>

definition prepareValue :: "(jsval \<Rightarrow> string) \<Rightarrow> row \<Rightarrow> string \<Rightarrow> jsval" where
  "prepareValue stringify row col =
     (let v0 = getProp row col;
          v1 = (if v0 = JUndefined then JNull else v0);
          v2 = (if v1 = JStr [] then JNull else v1);
          v3 = (case v2 of JArr _ \<Rightarrow> JStr (stringify v2) | JObj _ \<Rightarrow> JStr (stringify v2) | _ \<Rightarrow> v2)
      in case v3 of
           JStr s \<Rightarrow>
             (let t = trim s in
              if (startsWith t ''['' \<and> endsWith t '']'') \<or> (startsWith t ''{'' \<and> endsWith t ''}'')
              then JStr t else v3)
         | _ \<Rightarrow> v3)"

text \<open>The array \<open>values\<close> of a batch: row after row, one value for each valid column.\<close>

definition batchValues :: "(jsval \<Rightarrow> string) \<Rightarrow> string list \<Rightarrow> row list \<Rightarrow> jsval list" where
  "batchValues stringify cols batch =
     concat (map (\<lambda>row. map (prepareValue stringify row) cols) batch)"

text \<open>
  The per-row fallback: the loop \<open>for (let r = 0; r < batch.length; r++)\<close> over the rows
  that are left, with the index \<open>r\<close> and the pair \<open>(rowsInserted, rowErrors)\<close>. A row's
  error is caught and recorded; nothing is raised.
\<close>

fun fallbackRows ::
  "(jsval \<Rightarrow> string) \<Rightarrow> 'w connection \<Rightarrow> string \<Rightarrow> string list \<Rightarrow> row list \<Rightarrow> nat \<Rightarrow>
     nat \<times> row_error list \<Rightarrow> 'w \<Rightarrow> (nat \<times> row_error list) \<times> 'w" where
  "fallbackRows stringify conn singleQuery cols [] r acc w = (acc, w)"
| "fallbackRows stringify conn singleQuery cols (singleRow # rest) r acc w =
     (let singleValues = map (prepareValue stringify singleRow) cols in
      case conn w singleQuery singleValues of
        (Inr res, w') \<Rightarrow>
          fallbackRows stringify conn singleQuery cols rest (r + 1)
            (fst acc + rowCountOr0 res, snd acc) w'
      | (Inl singleErr, w') \<Rightarrow>
          fallbackRows stringify conn singleQuery cols rest (r + 1)
            (fst acc, snd acc @ [\<lparr>re_rowIndex = r, re_error = message singleErr,
                                   re_sampleRow = singleRow\<rparr>]) w')"

text \<open>
  \<open>insertBatch\<close>. It raises in two places only: when no column is valid, and at the
  sanity check on the number of values. An error of the multi-row statement starts the
  fallback.
\<close>

definition insertBatch ::
  "(jsval \<Rightarrow> string) \<Rightarrow> 'w connection \<Rightarrow> string \<Rightarrow> row list \<Rightarrow> jsval list \<Rightarrow> string \<Rightarrow> 'w \<Rightarrow>
     (js_error + batch_result) \<times> 'w" where
  "insertBatch stringify conn tName batch columnNames onConflict w =
     (if length batch = 0 then (Inr \<lparr>insertedRows = 0, rowErrors = None\<rparr>, w)
      else
        let cols = validColumns columnNames batch in
        if length cols = 0 then (Inl (Error (''No valid columns found for table '' @ tName)), w)
        else
          let query = insertQuery tName cols (length batch) onConflict;
              vals = batchValues stringify cols batch;
              expectedValues = length batch * length cols
          in if length vals \<noteq> expectedValues
             then (Inl (Error (''Batch construction error: expected '' @ showNat expectedValues @
                               '' values but got '' @ showNat (length vals))), w)
             else
               (case conn w query vals of
                  (Inr result, w') \<Rightarrow> (Inr \<lparr>insertedRows = rowCountOr0 result, rowErrors = None\<rparr>, w')
                | (Inl err, w') \<Rightarrow>
                    (let singleQuery = insertQuery tName cols 1 onConflict;
                         fb = fallbackRows stringify conn singleQuery cols batch 0 (0, []) w'
                     in (Inr \<lparr>insertedRows = fst (fst fb), rowErrors = Some (snd (fst fb))\<rparr>,
                         snd fb))))"

text \<open>
  The data service's state, and the options of \<open>insertTableData\<close> (a missing option
  takes its default). Batch sizes are natural numbers; with a batch size of \<open>0\<close> the
  loop over the batches never ends, which is why the loop is a partial function whose
  value \<open>None\<close> stands for not returning.
\<close>

record data_service =
  isInitialized :: bool
  batchSize :: nat

record insert_options =
  clearFirst :: "bool option"
  onConflict :: "string option"
  optBatchSize :: "nat option"

definition clearTableData ::
  "'w connection \<Rightarrow> data_service \<Rightarrow> string \<Rightarrow> 'w \<Rightarrow> (js_error + nat) \<times> 'w" where
  "clearTableData conn svc tName w =
     (if \<not> isInitialized svc
      then (Inl (Error ''Data service not initialized. Call initialize() first.''), w)
      else
        (case conn w (''DELETE FROM '' @ quoteIdent tName @ '';'') [] of
           (Inr result, w') \<Rightarrow> (Inr (rowCountOr0 result), w')
         | (Inl err, w') \<Rightarrow>
             (Inl (Error (''Failed to clear table '' @ tName @ '': '' @ message err)), w')))"

text \<open>The catalog query of \<open>getTableColumns\<close>, its white space normalised.\<close>

definition columnsQuery :: string where
  "columnsQuery = ''SELECT column_name, data_type, is_nullable, column_default FROM information_schema.columns WHERE table_name = $1 AND table_schema = 'public' ORDER BY ordinal_position;''"

definition getTableColumns :: "'w connection \<Rightarrow> string \<Rightarrow> 'w \<Rightarrow> (js_error + row list) \<times> 'w" where
  "getTableColumns conn tName w =
     (case conn w columnsQuery [JStr tName] of
        (Inr result, w') \<Rightarrow> (Inr (rows result), w')
      | (Inl err, w') \<Rightarrow>
          (Inl (Error (''Failed to get columns for table '' @ tName @ '': '' @ message err)), w'))"

text \<open>
  The loop \<open>for (let i = 0; i < data.length; i += batchSize)\<close> of \<open>insertTableData\<close>
  with its accumulators \<open>(totalInserted, batchCount, errors)\<close>. An error of
  \<open>insertBatch\<close> is pushed to \<open>errors\<close> and raised again only when its message contains
  \<open>does not exist\<close> or \<open>permission\<close>.
\<close>

partial_function (option) insertLoop ::
  "(jsval \<Rightarrow> string) \<Rightarrow> 'w connection \<Rightarrow> string \<Rightarrow> row list \<Rightarrow> jsval list \<Rightarrow> string \<Rightarrow> nat \<Rightarrow>
     nat \<Rightarrow> nat \<times> nat \<times> batch_error list \<Rightarrow> 'w \<Rightarrow>
     ((js_error + nat \<times> nat \<times> batch_error list) \<times> 'w) option" where
  "insertLoop stringify conn tName data columnNames onConfl bSize i acc w =
     (if i < length data then
        (let batch = take bSize (drop i data);
             totalInserted = fst acc;
             batchCount = fst (snd acc) + 1;
             errs = snd (snd acc)
         in case insertBatch stringify conn tName batch columnNames onConfl w of
              (Inr batchResult, w') \<Rightarrow>
                insertLoop stringify conn tName data columnNames onConfl bSize (i + bSize)
                  (totalInserted + insertedRows batchResult, batchCount, errs) w'
            | (Inl err, w') \<Rightarrow>
                (let errs' = errs @ [\<lparr>be_batchNumber = batchCount, be_batchSize = length batch,
                                        be_error = message err\<rparr>]
                 in if str_includes (message err) ''does not exist'' \<or>
                       str_includes (message err) ''permission''
                    then Some (Inl err, w')
                    else insertLoop stringify conn tName data columnNames onConfl bSize (i + bSize)
                           (totalInserted, batchCount, errs') w'))
      else Some (Inr acc, w))"

declare insertLoop.simps [code]

text \<open>
  \<open>insertTableData\<close>. Whatever is raised inside its \<open>try\<close> block is wrapped:
  \<open>Failed to insert data into table T: ...\<close>.
\<close>

definition insertTableData ::
  "(jsval \<Rightarrow> string) \<Rightarrow> 'w connection \<Rightarrow> data_service \<Rightarrow> string \<Rightarrow> row list \<Rightarrow> insert_options \<Rightarrow>
     'w \<Rightarrow> ((js_error + insert_result) \<times> 'w) option" where
  "insertTableData stringify conn svc tName data opts w =
     (if \<not> isInitialized svc
      then Some (Inl (Error ''Data service not initialized. Call initialize() first.''), w)
      else if length data = 0
      then Some (Inr \<lparr>insertedRows = 0, tableName = tName, totalRows = 0, success = True,
                       batches = 0, errors = None\<rparr>, w)
      else
        let clearFirst' = (case clearFirst opts of None \<Rightarrow> False | Some b \<Rightarrow> b);
            onConflict' = (case onConflict opts of None \<Rightarrow> ''error'' | Some c \<Rightarrow> c);
            batchSize' = (case optBatchSize opts of None \<Rightarrow> batchSize svc | Some b \<Rightarrow> b);
            wrap = (\<lambda>e. Error (''Failed to insert data into table '' @ tName @ '': '' @ message e));
            cleared = (if clearFirst' then clearTableData conn svc tName w else (Inr 0, w))
        in case cleared of
             (Inl e, w1) \<Rightarrow> Some (Inl (wrap e), w1)
           | (Inr _, w1) \<Rightarrow>
               (case getTableColumns conn tName w1 of
                  (Inl e, w2) \<Rightarrow> Some (Inl (wrap e), w2)
                | (Inr columns, w2) \<Rightarrow>
                    (let columnNames = map (\<lambda>col. getProp col ''column_name'') columns in
                     case insertLoop stringify conn tName data columnNames onConflict' batchSize' 0
                            (0, 0, []) w2 of
                       None \<Rightarrow> None
                     | Some (Inl e, w3) \<Rightarrow> Some (Inl (wrap e), w3)
                     | Some (Inr (totalInserted, batchCount, errs), w3) \<Rightarrow>
                         Some (Inr \<lparr>insertedRows = totalInserted, tableName = tName,
                                    totalRows = length data, success = (length errs = 0),
                                    batches = batchCount, errors = Some errs\<rparr>, w3))))"

section \<open>The per-row fallback as the specification words it\<close>

text \<open>
  The specification speaks of the single-row statements of the fallback, of those that
  succeed and of the per-row errors. \<open>singleRowResults\<close> is what the connection answers
  to the single-row statements, in row order, each sent in the world the one before it
  left; \<open>succeededRowCounts\<close> are the \<open>rowCount || 0\<close> of the statements that succeeded,
  and \<open>rowErrorsOf r\<close> are the entries \<open>{rowIndex, error, sampleRow}\<close> of the rows whose
  statement raised, the first row having the index \<open>r\<close>. They are compared with
  \<open>insertBatch\<close> below.
\<close>

fun singleRowResults ::
  "(jsval \<Rightarrow> string) \<Rightarrow> 'w connection \<Rightarrow> string \<Rightarrow> string list \<Rightarrow> row list \<Rightarrow> 'w \<Rightarrow>
     (js_error + query_result) list" where
  "singleRowResults stringify conn singleQuery cols [] w = []"
| "singleRowResults stringify conn singleQuery cols (singleRow # rest) w =
     (case conn w singleQuery (map (prepareValue stringify singleRow) cols) of
        (res, w') \<Rightarrow> res # singleRowResults stringify conn singleQuery cols rest w')"

definition succeededRowCounts :: "(js_error + query_result) list \<Rightarrow> nat list" where
  "succeededRowCounts outs =
     List.map_filter (\<lambda>out. case out of Inr res \<Rightarrow> Some (rowCountOr0 res) | Inl _ \<Rightarrow> None) outs"

definition rowErrorsOf :: "nat \<Rightarrow> row list \<Rightarrow> (js_error + query_result) list \<Rightarrow> row_error list" where
  "rowErrorsOf r batch outs =
     List.map_filter
       (\<lambda>(i, singleRow, out). case out of
            Inl singleErr \<Rightarrow>
              Some \<lparr>re_rowIndex = i, re_error = message singleErr, re_sampleRow = singleRow\<rparr>
          | Inr _ \<Rightarrow> None)
       (zip [r ..< r + length batch] (zip batch outs))"

section \<open>Executor: \<open>SyncOrchestratorService\<close>\<close>

text \<open>
  What the collaborators return: \<open>metabaseService.extractAllTableData\<close>
  (\<open>{success, data, error}\<close>), \<open>getTableRowCount\<close> (\<open>{success, count}\<close>),
  \<open>authenticate\<close> and \<open>getTables\<close>. Field names carry a prefix where two records of the
  source share one.
\<close>

record extract_result =
  ex_success :: bool
  ex_data :: "row list"
  ex_error :: "string option"

record count_result =
  cr_success :: bool
  cr_count :: nat

record auth_result =
  au_success :: bool
  au_error :: "string option"

record tables_result =
  tr_success :: bool
  tr_tables :: "table list"
  tr_error :: "string option"

record credentials =
  username :: string
  password :: string

text \<open>
  The collaborators of the orchestrator, each an oracle on the world: the runtime's
  \<open>JSON.stringify\<close>, the local connection's \<open>query\<close>, the Metabase service
  (\<open>authenticate\<close>, \<open>getTables\<close>, \<open>getTableRowCount\<close>, \<open>extractAllTableData\<close>), the
  connection service (\<open>initialize\<close>, \<open>connectLocal\<close>), \<open>dataService.initialize\<close> (whether
  it set \<open>isInitialized\<close>) and \<open>getTableDependencies\<close>, the schema discovery
  (\<open>discoverEnumValues\<close>, \<open>getEnumColumns\<close>), and the two calls of \<open>cleanup\<close>, whose
  errors are swallowed.
\<close>

record 'w services =
  stringify :: "jsval \<Rightarrow> string"
  query :: "'w connection"
  authenticate :: "'w \<Rightarrow> string \<Rightarrow> string \<Rightarrow> auth_result \<times> 'w"
  connectionInitialize :: "'w \<Rightarrow> (js_error + unit) \<times> 'w"
  dataInitialize :: "'w \<Rightarrow> bool \<times> 'w"
  connectLocal :: "'w \<Rightarrow> (js_error + unit) \<times> 'w"
  getTables :: "'w \<Rightarrow> (js_error + tables_result) \<times> 'w"
  getTableDependencies :: "'w \<Rightarrow> (js_error + (string \<rightharpoonup> string list)) \<times> 'w"
  discoverEnumValues :: "'w \<Rightarrow> (string \<rightharpoonup> string list) \<times> 'w"
  getEnumColumns :: "'w \<Rightarrow> string \<Rightarrow> (string \<rightharpoonup> string list) \<Rightarrow> enum_column list \<times> 'w"
  getTableRowCount :: "'w \<Rightarrow> int \<Rightarrow> (js_error + count_result) \<times> 'w"
  extractAllTableData :: "'w \<Rightarrow> int \<Rightarrow> string \<Rightarrow> (js_error + extract_result) \<times> 'w"
  closeAndLogout :: "'w \<Rightarrow> 'w"

text \<open>
  The orchestrator's own state: \<open>syncConfig\<close> and \<open>syncStats\<close> (without the two
  timestamps). \<open>configure\<close> merges any object into \<open>syncConfig\<close>, so the key
  \<open>continueOnError\<close>, which the command line's \<open>--ignore-errors\<close> sets, may be present.
  \<open>sys\<close> gathers the world, the orchestrator's state and the state of the two
  singleton services it drives.
\<close>

record failed_table =
  ft_name :: string
  ft_error :: string
  ft_details :: string

record sync_config =
  cfg_batchSize :: nat
  cfg_onConflict :: string
  enableRollback :: bool
  enableTransformation :: bool
  continueOnError :: "bool option"

record sync_stats =
  totalTables :: nat
  successfulTables :: nat
  failedTables :: "failed_table list"
  totalRemoteRows :: nat
  syncedRows :: nat

record 'w sys =
  world :: 'w
  syncConfig :: sync_config
  syncStats :: sync_stats
  transformationStatsOf :: transformationStats
  dataService :: data_service

text \<open>
  The options \<open>{onConflict: this.syncConfig.onConflict, batchSize:
  this.syncConfig.batchSize}\<close> that \<open>syncSingleTable\<close> passes to the loader.
\<close>

definition syncInsertOptions :: "sync_config \<Rightarrow> insert_options" where
  "syncInsertOptions cfg =
     \<lparr>clearFirst = None, onConflict = Some (cfg_onConflict cfg),
      optBatchSize = Some (cfg_batchSize cfg)\<rparr>"

text \<open>
  \<open>syncSingleTable\<close>: extract, transform, insert, verify. Each \<open>throw\<close> is an \<open>Inl\<close>;
  \<open>None\<close> is an insertion that does not return.
\<close>

definition syncSingleTable ::
  "'w services \<Rightarrow> table \<Rightarrow> (string \<rightharpoonup> string list) \<Rightarrow> 'w sys \<Rightarrow>
     ((js_error + unit) \<times> 'w sys) option" where
  "syncSingleTable env tbl enumMap sys =
     (case extractAllTableData env (world sys) (tid tbl) (tname tbl) of
        (Inl e, w1) \<Rightarrow> Some (Inl e, sys\<lparr>world := w1\<rparr>)
      | (Inr extractResult, w1) \<Rightarrow>
          if \<not> ex_success extractResult \<or> length (ex_data extractResult) = 0
          then Some (Inl (Error (''Data extraction failed: '' @
                        orElse (ex_error extractResult) ''No data returned'')),
                     sys\<lparr>world := w1\<rparr>)
          else
            (case transformTableData (getEnumColumns env) (tname tbl) (ex_data extractResult)
                    enumMap (transformationStatsOf sys, w1) of
               (Inl e, st2, w2) \<Rightarrow>
                 Some (Inl e, sys\<lparr>world := w2, transformationStatsOf := st2\<rparr>)
             | (Inr transformedData, st2, w2) \<Rightarrow>
                 (let sys2 = sys\<lparr>world := w2, transformationStatsOf := st2\<rparr> in
                  case insertTableData (stringify env) (query env) (dataService sys2) (tname tbl)
                         transformedData
                         (syncInsertOptions (syncConfig sys2))
                         (world sys2) of
                    None \<Rightarrow> None
                  | Some (Inl e, w3) \<Rightarrow> Some (Inl e, sys2\<lparr>world := w3\<rparr>)
                  | Some (Inr insertResult, w3) \<Rightarrow>
                      if \<not> success insertResult then
                        Some (Inl (Error (''Data insertion failed: '' @
                                (case errors insertResult of
                                   Some (e # _) \<Rightarrow> be_error e
                                 | _ \<Rightarrow> ''Unknown insertion error''))),
                              sys2\<lparr>world := w3\<rparr>)
                      else if insertedRows insertResult \<noteq> length (ex_data extractResult) then
                        Some (Inl (Error (''Row count mismatch: expected '' @
                                showNat (length (ex_data extractResult)) @ '', inserted '' @
                                showNat (insertedRows insertResult))),
                              sys2\<lparr>world := w3\<rparr>)
                      else
                        Some (Inr (),
                              sys2\<lparr>world := w3,
                                   syncStats := (syncStats sys2)
                                     \<lparr>syncedRows := syncedRows (syncStats sys2) +
                                        insertedRows insertResult\<rparr>\<rparr>))))"

text \<open>
  Clearing and rollback: \<open>DELETE FROM "T"\<close> for each table of the clearing order; a
  table that cannot be cleared is logged and skipped. The clearing order is computed
  after \<open>connectLocal\<close>, outside any \<open>try\<close>: a \<open>TypeError\<close> of
  \<open>sortTablesByDependencies\<close> leaves the function.
\<close>

fun deleteTables :: "'w connection \<Rightarrow> string list \<Rightarrow> nat \<times> 'w \<Rightarrow> nat \<times> 'w" where
  "deleteTables conn [] acc = acc"
| "deleteTables conn (tName # rest) acc =
     (case conn (snd acc) (''DELETE FROM '' @ quoteIdent tName) [] of
        (Inr _, w') \<Rightarrow> deleteTables conn rest (fst acc + 1, w')
      | (Inl _, w') \<Rightarrow> deleteTables conn rest (fst acc, w'))"

definition clearExistingData ::
  "'w services \<Rightarrow> table list \<Rightarrow> (string \<rightharpoonup> string list) \<Rightarrow> 'w sys \<Rightarrow> (js_error + nat) \<times> 'w sys" where
  "clearExistingData env tables dependencies sys =
     (case connectLocal env (world sys) of
        (Inl e, w1) \<Rightarrow> (Inl e, sys\<lparr>world := w1\<rparr>)
      | (Inr _, w1) \<Rightarrow>
          (case clearingOrder tables dependencies of
             Inl e \<Rightarrow> (Inl e, sys\<lparr>world := w1\<rparr>)
           | Inr order \<Rightarrow>
               (case deleteTables (query env) order (0, w1) of
                  (clearedTables, w2) \<Rightarrow> (Inr clearedTables, sys\<lparr>world := w2\<rparr>))))"

definition performRollback ::
  "'w services \<Rightarrow> table list \<Rightarrow> (string \<rightharpoonup> string list) \<Rightarrow> 'w sys \<Rightarrow> (js_error + unit) \<times> 'w sys" where
  "performRollback env tables dependencies sys =
     (case connectLocal env (world sys) of
        (Inl e, w1) \<Rightarrow> (Inl e, sys\<lparr>world := w1\<rparr>)
      | (Inr _, w1) \<Rightarrow>
          (case clearingOrder tables dependencies of
             Inl e \<Rightarrow> (Inl e, sys\<lparr>world := w1\<rparr>)
           | Inr order \<Rightarrow>
               (case deleteTables (query env) order (0, w1) of
                  (_, w2) \<Rightarrow> (Inr (), sys\<lparr>world := w2\<rparr>))))"

text \<open>
  \<open>handleSyncFailures\<close> rolls back when \<open>enableRollback\<close> is set and then raises, whatever
  the configuration says. It never returns normally, so its result is the error raised.
\<close>

definition handleSyncFailures ::
  "'w services \<Rightarrow> table list \<Rightarrow> (string \<rightharpoonup> string list) \<Rightarrow> 'w sys \<Rightarrow> js_error \<times> 'w sys" where
  "handleSyncFailures env tables dependencies sys =
     (if enableRollback (syncConfig sys) then
        (case performRollback env tables dependencies sys of
           (Inl e, sys1) \<Rightarrow> (e, sys1)
         | (Inr _, sys1) \<Rightarrow> (Error ''Database synchronization FAILED - no changes applied'', sys1))
      else (Error ''Database synchronization FAILED - no changes applied'', sys))"

text \<open>
  \<open>analyzeTableSizes\<close>: \<open>tableCounts\<close> is a plain object keyed by table name, filled in
  table order; it is the association list of its own properties. The assignment
  \<open>tableCounts[table.name] = n\<close> sets an own property, except for the name \<open>__proto__\<close>:
  there it calls the setter of \<open>Object.prototype\<close>, which ignores a number.
  \<open>readCount\<close> is the read \<open>tableCounts[table.name] || 0\<close>: the own count, \<open>0\<close> for a
  missing key, and \<open>None\<close> for a member inherited from \<open>Object.prototype\<close>, which is no
  number.
\<close>

definition assignCount :: "(string \<times> nat) list \<Rightarrow> string \<Rightarrow> nat \<Rightarrow> (string \<times> nat) list" where
  "assignCount tableCounts name n =
     (if name = ''__proto__'' then tableCounts else objSet tableCounts name n)"

definition readCount :: "(string \<times> nat) list \<Rightarrow> string \<Rightarrow> nat option" where
  "readCount tableCounts name =
     (case map_of tableCounts name of
        Some n \<Rightarrow> Some n
      | None \<Rightarrow> if name \<in> set objectPrototypeKeys then None else Some 0)"

fun countRows ::
  "'w services \<Rightarrow> table list \<Rightarrow> (string \<times> nat) list \<times> 'w \<Rightarrow> (js_error + (string \<times> nat) list) \<times> 'w" where
  "countRows env [] acc = (Inr (fst acc), snd acc)"
| "countRows env (tbl # rest) acc =
     (case getTableRowCount env (snd acc) (tid tbl) of
        (Inl e, w') \<Rightarrow> (Inl e, w')
      | (Inr countResult, w') \<Rightarrow>
          countRows env rest
            (assignCount (fst acc) (tname tbl)
               (if cr_success countResult then cr_count countResult else 0),
             w'))"

definition analyzeTableSizes ::
  "'w services \<Rightarrow> table list \<Rightarrow> 'w sys \<Rightarrow> (js_error + (string \<times> nat) list) \<times> 'w sys" where
  "analyzeTableSizes env tables sys =
     (case countRows env tables ([], world sys) of
        (Inl e, w') \<Rightarrow> (Inl e, sys\<lparr>world := w'\<rparr>)
      | (Inr tableCounts, w') \<Rightarrow>
          (Inr tableCounts,
           sys\<lparr>world := w',
               syncStats := (syncStats sys)\<lparr>totalRemoteRows := sum_list (map snd tableCounts)\<rparr>\<rparr>))"

text \<open>
  The body of the loop of \<open>performDataSync\<close> for one table (\<open>syncTable\<close>), the loop
  (\<open>syncTables\<close>), and the function: a table whose recorded count is \<open>0\<close>
  (\<open>rowCount === 0\<close>) is counted as successful without extraction, any other table is
  synchronised and counted as successful or pushed to \<open>failedTables\<close>. The insertion
  order is computed after \<open>connectLocal\<close>, outside any \<open>try\<close>; \<open>sortedTablesOf\<close> is
  \<open>insertionOrder.map(name => tables.find(t => t.name === name)).filter(Boolean)\<close>.
\<close>

definition syncTable ::
  "'w services \<Rightarrow> (string \<rightharpoonup> string list) \<Rightarrow> (string \<times> nat) list \<Rightarrow> table \<Rightarrow> 'w sys \<Rightarrow> 'w sys option" where
  "syncTable env enumMap tableCounts tbl sys =
     (let rowCount = readCount tableCounts (tname tbl) in
      if rowCount = Some 0 then
        Some (sys\<lparr>syncStats := (syncStats sys)
                 \<lparr>successfulTables := successfulTables (syncStats sys) + 1\<rparr>\<rparr>)
      else
        (case syncSingleTable env tbl enumMap sys of
           None \<Rightarrow> None
         | Some (Inr _, sys1) \<Rightarrow>
             Some (sys1\<lparr>syncStats := (syncStats sys1)
                      \<lparr>successfulTables := successfulTables (syncStats sys1) + 1\<rparr>\<rparr>)
         | Some (Inl e, sys1) \<Rightarrow>
             Some (sys1\<lparr>syncStats := (syncStats sys1)
                      \<lparr>failedTables := failedTables (syncStats sys1) @
                         [\<lparr>ft_name = tname tbl, ft_error = message e,
                           ft_details = orElse (details e) ''Unknown error''\<rparr>]\<rparr>\<rparr>)))"

fun syncTables ::
  "'w services \<Rightarrow> (string \<rightharpoonup> string list) \<Rightarrow> (string \<times> nat) list \<Rightarrow> table list \<Rightarrow> 'w sys \<Rightarrow> 'w sys option" where
  "syncTables env enumMap tableCounts [] sys = Some sys"
| "syncTables env enumMap tableCounts (tbl # rest) sys =
     (case syncTable env enumMap tableCounts tbl sys of
        None \<Rightarrow> None
      | Some sys1 \<Rightarrow> syncTables env enumMap tableCounts rest sys1)"

definition sortedTablesOf :: "table list \<Rightarrow> string list \<Rightarrow> table list" where
  "sortedTablesOf tables insertionOrder =
     List.map_filter (\<lambda>name. find (\<lambda>t. tname t = name) tables) insertionOrder"

definition performDataSync ::
  "'w services \<Rightarrow> table list \<Rightarrow> (string \<rightharpoonup> string list) \<Rightarrow> (string \<rightharpoonup> string list) \<Rightarrow>
     (string \<times> nat) list \<Rightarrow> 'w sys \<Rightarrow> ((js_error + unit) \<times> 'w sys) option" where
  "performDataSync env tables dependencies enumMap tableCounts sys =
     (case connectLocal env (world sys) of
        (Inl e, w1) \<Rightarrow> Some (Inl e, sys\<lparr>world := w1\<rparr>)
      | (Inr _, w1) \<Rightarrow>
          (case sortTablesByDependencies (map tname tables) dependencies of
             Inl e \<Rightarrow> Some (Inl e, sys\<lparr>world := w1\<rparr>)
           | Inr insertionOrder \<Rightarrow>
               (case syncTables env enumMap tableCounts (sortedTablesOf tables insertionOrder)
                       (sys\<lparr>world := w1\<rparr>) of
                  None \<Rightarrow> None
                | Some sys2 \<Rightarrow>
                    if length (failedTables (syncStats sys2)) > 0 then
                      (case handleSyncFailures env tables dependencies sys2 of
                         (e, sys3) \<Rightarrow> Some (Inl e, sys3))
                    else Some (Inr (), sys2))))"

definition synchronizeData ::
  "'w services \<Rightarrow> table list \<Rightarrow> (string \<rightharpoonup> string list) \<Rightarrow> (string \<rightharpoonup> string list) \<Rightarrow>
     'w sys \<Rightarrow> ((js_error + unit) \<times> 'w sys) option" where
  "synchronizeData env tables dependencies enumMap sys =
     (case analyzeTableSizes env tables sys of
        (Inl e, sys1) \<Rightarrow> Some (Inl e, sys1)
      | (Inr tableCounts, sys1) \<Rightarrow>
          performDataSync env tables dependencies enumMap tableCounts sys1)"

text \<open>The first two phases of \<open>executeSync\<close>.\<close>

definition authenticateAndConnect ::
  "'w services \<Rightarrow> credentials \<Rightarrow> 'w sys \<Rightarrow> (js_error + unit) \<times> 'w sys" where
  "authenticateAndConnect env creds sys =
     (case authenticate env (world sys) (username creds) (password creds) of
        (authResult, w1) \<Rightarrow>
          if \<not> au_success authResult then
            (Inl (Error (''Failed to authenticate with Metabase: '' @ orUndefined (au_error authResult))),
             sys\<lparr>world := w1\<rparr>)
          else
            (case connectionInitialize env w1 of
               (Inl e, w2) \<Rightarrow> (Inl e, sys\<lparr>world := w2\<rparr>)
             | (Inr _, w2) \<Rightarrow>
                 (case dataInitialize env w2 of
                    (ok, w3) \<Rightarrow>
                      (let svc = (dataService sys)
                                   \<lparr>isInitialized := (ok \<or> isInitialized (dataService sys))\<rparr> in
                       case connectLocal env w3 of
                         (Inl e, w4) \<Rightarrow> (Inl e, sys\<lparr>world := w4, dataService := svc\<rparr>)
                       | (Inr _, w4) \<Rightarrow> (Inr (), sys\<lparr>world := w4, dataService := svc\<rparr>)))))"

definition discoverAndAnalyze ::
  "'w services \<Rightarrow> 'w sys \<Rightarrow>
     (js_error + table list \<times> (string \<rightharpoonup> string list) \<times> (string \<rightharpoonup> string list)) \<times> 'w sys" where
  "discoverAndAnalyze env sys =
     (case getTables env (world sys) of
        (Inl e, w1) \<Rightarrow> (Inl e, sys\<lparr>world := w1\<rparr>)
      | (Inr tablesResult, w1) \<Rightarrow>
          if \<not> tr_success tablesResult then
            (Inl (Error (''Failed to retrieve tables: '' @ orUndefined (tr_error tablesResult))),
             sys\<lparr>world := w1\<rparr>)
          else
            (let tables = tr_tables tablesResult;
                 sys1 = sys\<lparr>syncStats := (syncStats sys)\<lparr>totalTables := length tables\<rparr>\<rparr> in
             case connectLocal env w1 of
               (Inl e, w2) \<Rightarrow> (Inl e, sys1\<lparr>world := w2\<rparr>)
             | (Inr _, w2) \<Rightarrow>
                 (case getTableDependencies env w2 of
                    (Inl e, w3) \<Rightarrow> (Inl e, sys1\<lparr>world := w3\<rparr>)
                  | (Inr dependencies, w3) \<Rightarrow>
                      (case discoverEnumValues env w3 of
                         (enumMap, w4) \<Rightarrow>
                           (Inr (tables, dependencies, enumMap), sys1\<lparr>world := w4\<rparr>)))))"

text \<open>
  \<open>finalizeSynchronization\<close> and \<open>executeSync\<close>: the \<open>try\<close> block is \<open>executeSyncBody\<close>;
  an error is raised again after \<open>handleSyncFailure\<close> (which only logs), and \<open>cleanup\<close> runs
  in either case. \<open>main\<close> is the entry point of \<open>sync-all.js\<close> for a full synchronisation:
  its value is the exit code of the process.
\<close>

record sync_result =
  sr_success :: bool
  sr_stats :: sync_stats
  sr_transformationStats :: transformationStats

definition finalizeSynchronization :: "'w sys \<Rightarrow> sync_result" where
  "finalizeSynchronization sys =
     \<lparr>sr_success = True, sr_stats = syncStats sys,
      sr_transformationStats = transformationStatsOf sys\<rparr>"

definition executeSyncBody ::
  "'w services \<Rightarrow> credentials \<Rightarrow> 'w sys \<Rightarrow> ((js_error + sync_result) \<times> 'w sys) option" where
  "executeSyncBody env creds sys =
     (case authenticateAndConnect env creds sys of
        (Inl e, sys1) \<Rightarrow> Some (Inl e, sys1)
      | (Inr _, sys1) \<Rightarrow>
          (case discoverAndAnalyze env sys1 of
             (Inl e, sys2) \<Rightarrow> Some (Inl e, sys2)
           | (Inr (tables, dependencies, enumMap), sys2) \<Rightarrow>
               (case clearExistingData env tables dependencies sys2 of
                  (Inl e, sys3) \<Rightarrow> Some (Inl e, sys3)
                | (Inr _, sys3) \<Rightarrow>
                    (case synchronizeData env tables dependencies enumMap sys3 of
                       None \<Rightarrow> None
                     | Some (Inl e, sys4) \<Rightarrow> Some (Inl e, sys4)
                     | Some (Inr _, sys4) \<Rightarrow> Some (Inr (finalizeSynchronization sys4), sys4)))))"

definition executeSync ::
  "'w services \<Rightarrow> credentials \<Rightarrow> 'w sys \<Rightarrow> ((js_error + sync_result) \<times> 'w sys) option" where
  "executeSync env creds sys =
     (case executeSyncBody env creds sys of
        None \<Rightarrow> None
      | Some (res, sys1) \<Rightarrow> Some (res, sys1\<lparr>world := closeAndLogout env (world sys1)\<rparr>))"

definition main :: "'w services \<Rightarrow> credentials \<Rightarrow> 'w sys \<Rightarrow> nat option" where
  "main env creds sys =
     (if username creds = [] \<or> password creds = [] then Some 1
      else
        (case executeSync env creds sys of
           None \<Rightarrow> None
         | Some (Inl _, _) \<Rightarrow> Some 1
         | Some (Inr _, _) \<Rightarrow> Some 0))"

section \<open>Configurator: \<open>utils/env.js\<close>\<close>

text \<open>\<open>process.env\<close> is an object of strings: an association list.\<close>

definition REQUIRED_ENV_VARS :: "string list" where
  "REQUIRED_ENV_VARS =
     [''DB_LOCAL_HOST'', ''DB_LOCAL_PORT'', ''DB_LOCAL_NAME'', ''DB_LOCAL_USERNAME'',
      ''DB_LOCAL_PASSWORD'', ''METABASE_BASE_URL'', ''METABASE_DATABASE_ID'',
      ''DB_REMOTE_USERNAME'', ''DB_REMOTE_PASSWORD'']"

definition OPTIONAL_ENV_VARS :: "(string \<times> string) list" where
  "OPTIONAL_ENV_VARS =
     [(''DB_LOCAL_SSL'', ''false''), (''DB_CONNECTION_TIMEOUT'', ''30000''),
      (''DB_BATCH_SIZE'', ''1000''), (''SYNC_LOG_LEVEL'', ''info'')]"

text \<open>
  The two built-ins the format checks use, on strings. \<open>isNaN(s)\<close> converts the whole
  string to a number: after trimming, it must be empty or a numeric literal (a decimal
  literal with an optional sign, fraction and exponent, \<open>Infinity\<close>, or an unsigned
  hexadecimal, octal or binary integer). \<open>parseInt(s)\<close> reads the longest prefix of
  digits after the white space, a sign and an optional \<open>0x\<close>, and is \<open>NaN\<close> (here
  \<open>None\<close>) when there is none. A comparison with \<open>NaN\<close> is false.
\<close>

definition isDigit :: "char \<Rightarrow> bool" where
  "isDigit c = (let n = (of_char c :: nat) in 48 \<le> n \<and> n \<le> 57)"

definition digitValue :: "char \<Rightarrow> int" where
  "digitValue c =
     (let n = (of_char c :: int) in
      if 48 \<le> n \<and> n \<le> 57 then n - 48
      else if 97 \<le> n \<and> n \<le> 102 then n - 87
      else n - 55)"

definition isHexDigit :: "char \<Rightarrow> bool" where
  "isHexDigit c =
     (let n = (of_char c :: nat) in
      (48 \<le> n \<and> n \<le> 57) \<or> (97 \<le> n \<and> n \<le> 102) \<or> (65 \<le> n \<and> n \<le> 70))"

definition isOctalDigit :: "char \<Rightarrow> bool" where
  "isOctalDigit c = (let n = (of_char c :: nat) in 48 \<le> n \<and> n \<le> 55)"

definition isBinaryDigit :: "char \<Rightarrow> bool" where
  "isBinaryDigit c = (c = CHR ''0'' \<or> c = CHR ''1'')"

definition digitsValue :: "int \<Rightarrow> string \<Rightarrow> int" where
  "digitsValue radix ds = foldl (\<lambda>acc c. acc * radix + digitValue c) 0 ds"

fun stripSign :: "string \<Rightarrow> string" where
  "stripSign [] = []"
| "stripSign (c # cs) = (if c = CHR ''+'' \<or> c = CHR ''-'' then cs else c # cs)"

definition allDigits :: "(char \<Rightarrow> bool) \<Rightarrow> string \<Rightarrow> bool" where
  "allDigits p ds = (ds \<noteq> [] \<and> list_all p ds)"

definition isExponentPart :: "string \<Rightarrow> bool" where
  "isExponentPart s =
     (case s of
        [] \<Rightarrow> True
      | c # cs \<Rightarrow> (c = CHR ''e'' \<or> c = CHR ''E'') \<and> allDigits isDigit (stripSign cs))"

definition isUnsignedDecimalLiteral :: "string \<Rightarrow> bool" where
  "isUnsignedDecimalLiteral s =
     (s = ''Infinity'' \<or>
      (let intPart = takeWhile isDigit s; r1 = dropWhile isDigit s in
       case r1 of
         [] \<Rightarrow> intPart \<noteq> []
       | c # r2 \<Rightarrow>
           if c = CHR ''.'' then
             (let fracPart = takeWhile isDigit r2; r3 = dropWhile isDigit r2 in
              (intPart \<noteq> [] \<or> fracPart \<noteq> []) \<and> isExponentPart r3)
           else intPart \<noteq> [] \<and> isExponentPart r1))"

definition isNonDecimalIntegerLiteral :: "string \<Rightarrow> bool" where
  "isNonDecimalIntegerLiteral s =
     ((startsWith s ''0x'' \<or> startsWith s ''0X'') \<and> allDigits isHexDigit (drop 2 s) \<or>
      (startsWith s ''0o'' \<or> startsWith s ''0O'') \<and> allDigits isOctalDigit (drop 2 s) \<or>
      (startsWith s ''0b'' \<or> startsWith s ''0B'') \<and> allDigits isBinaryDigit (drop 2 s))"

definition isNaN :: "string \<Rightarrow> bool" where
  "isNaN s =
     (let t = trim s in
      t \<noteq> [] \<and> \<not> (isUnsignedDecimalLiteral (stripSign t) \<or> isNonDecimalIntegerLiteral t))"

definition parseInt :: "string \<Rightarrow> int option" where
  "parseInt s =
     (let t = dropWhile isWhiteSpace s;
          sign = (if startsWith t ''-'' then - 1 else (1::int));
          u = stripSign t
      in if startsWith u ''0x'' \<or> startsWith u ''0X'' then
           (let z = takeWhile isHexDigit (drop 2 u) in
            if z = [] then None else Some (sign * digitsValue 16 z))
         else
           (let z = takeWhile isDigit u in
            if z = [] then None else Some (sign * digitsValue 10 z)))"

definition numLess :: "int option \<Rightarrow> int \<Rightarrow> bool" where
  "numLess a b = (case a of None \<Rightarrow> False | Some x \<Rightarrow> x < b)"

definition numLessEq :: "int option \<Rightarrow> int \<Rightarrow> bool" where
  "numLessEq a b = (case a of None \<Rightarrow> False | Some x \<Rightarrow> x \<le> b)"

definition numGreater :: "int option \<Rightarrow> int \<Rightarrow> bool" where
  "numGreater a b = (case a of None \<Rightarrow> False | Some x \<Rightarrow> x > b)"

text \<open>The three results, and the functions of the module.\<close>

record required_validation =
  rv_success :: bool
  missing :: "string list"
  invalid :: "string list"
  total :: nat

record format_validation =
  fv_success :: bool
  fv_errors :: "string list"

record environment_validation =
  ev_success :: bool
  required :: required_validation
  format :: format_validation
  allErrors :: "string list"

fun requiredLoop :: "(string \<times> string) list \<Rightarrow> string list \<Rightarrow> string list \<times> string list \<Rightarrow> string list \<times> string list" where
  "requiredLoop env [] acc = acc"
| "requiredLoop env (envVar # rest) acc =
     (case map_of env envVar of
        None \<Rightarrow> requiredLoop env rest (fst acc @ [envVar], snd acc)
      | Some v \<Rightarrow>
          if trim v = [] then requiredLoop env rest (fst acc, snd acc @ [envVar])
          else requiredLoop env rest acc)"

definition validateRequiredEnvVars :: "(string \<times> string) list \<Rightarrow> required_validation" where
  "validateRequiredEnvVars env =
     (let acc = requiredLoop env REQUIRED_ENV_VARS ([], []) in
      \<lparr>rv_success = (length (fst acc) = 0 \<and> length (snd acc) = 0),
       missing = fst acc, invalid = snd acc, total = length REQUIRED_ENV_VARS\<rparr>)"

definition truthyVar :: "string option \<Rightarrow> bool" where
  "truthyVar v = (case v of None \<Rightarrow> False | Some s \<Rightarrow> s \<noteq> [])"

definition validateEnvVarFormats :: "(string \<times> string) list \<Rightarrow> format_validation" where
  "validateEnvVarFormats env =
     (let localPort = map_of env ''DB_LOCAL_PORT'';
          e1 = (if truthyVar localPort \<and>
                   (isNaN (the localPort) \<or> numLessEq (parseInt (the localPort)) 0 \<or>
                    numGreater (parseInt (the localPort)) 65535)
                then [''DB_LOCAL_PORT must be a valid port number (1-65535)''] else []);
          timeout = map_of env ''DB_CONNECTION_TIMEOUT'';
          e2 = (if truthyVar timeout \<and>
                   (isNaN (the timeout) \<or> numLess (parseInt (the timeout)) 1000)
                then [''DB_CONNECTION_TIMEOUT must be a number >= 1000 (milliseconds)''] else []);
          batchSizeV = map_of env ''DB_BATCH_SIZE'';
          e3 = (if truthyVar batchSizeV \<and>
                   (isNaN (the batchSizeV) \<or> numLess (parseInt (the batchSizeV)) 1)
                then [''DB_BATCH_SIZE must be a positive number''] else []);
          logLevel = map_of env ''SYNC_LOG_LEVEL'';
          validLogLevels = [''error'', ''warn'', ''info'', ''debug''];
          e4 = (if truthyVar logLevel \<and> (the logLevel) \<notin> set validLogLevels
                then [''SYNC_LOG_LEVEL must be one of: error, warn, info, debug''] else []);
          errs = e1 @ e2 @ e3 @ e4
      in \<lparr>fv_success = (length errs = 0), fv_errors = errs\<rparr>)"

definition setDefaultEnvVars :: "(string \<times> string) list \<Rightarrow> (string \<times> string) list" where
  "setDefaultEnvVars env =
     fold (\<lambda>(key, defaultValue) env. if \<not> truthyVar (map_of env key) then objSet env key defaultValue else env)
       OPTIONAL_ENV_VARS env"

definition validateEnvironment :: "(string \<times> string) list \<Rightarrow> environment_validation \<times> (string \<times> string) list" where
  "validateEnvironment env0 =
     (let env = setDefaultEnvVars env0;
          requiredValidation = validateRequiredEnvVars env;
          formatValidation = (if rv_success requiredValidation then validateEnvVarFormats env
                              else \<lparr>fv_success = True, fv_errors = []\<rparr>)
      in (\<lparr>ev_success = (rv_success requiredValidation \<and> fv_success formatValidation),
           required = requiredValidation,
           format = formatValidation,
           allErrors = map (\<lambda>v. ''Missing required variable: '' @ v) (missing requiredValidation) @
                       map (\<lambda>v. ''Invalid value for variable: '' @ v) (invalid requiredValidation) @
                       fv_errors formatValidation\<rparr>, env))"

text \<open>An environment with every required variable set, for a given local port.\<close>

definition exampleEnv :: "string \<Rightarrow> (string \<times> string) list" where
  "exampleEnv port =
     [(''DB_LOCAL_HOST'', ''localhost''), (''DB_LOCAL_PORT'', port),
      (''DB_LOCAL_NAME'', ''db''), (''DB_LOCAL_USERNAME'', ''postgres''),
      (''DB_LOCAL_PASSWORD'', ''secret''), (''METABASE_BASE_URL'', ''https://metabase.example.com''),
      (''METABASE_DATABASE_ID'', ''1''), (''DB_REMOTE_USERNAME'', ''user@example.com''),
      (''DB_REMOTE_PASSWORD'', ''pw'')]"

section \<open>The enum cascade as the specification words it\<close>

text \<open>
  The three match rules, as predicates on a value and a label, read off
  \<open>transformEnumValue\<close> and \<open>findPartialMatch\<close>: equality under lower-casing, containment
  either way under lower-casing, and the abbreviation table.
\<close>

definition caseInsensitiveMatch :: "string \<Rightarrow> string \<Rightarrow> bool" where
  "caseInsensitiveMatch v label = (toLowerCase label = toLowerCase v)"

definition substringMatch :: "string \<Rightarrow> string \<Rightarrow> bool" where
  "substringMatch v label =
     (str_includes (toLowerCase label) (toLowerCase v) \<or>
      str_includes (toLowerCase v) (toLowerCase label))"

definition synonymMatch :: "string \<Rightarrow> string \<Rightarrow> bool" where
  "synonymMatch v label = isCommonAbbreviation (toLowerCase v) (toLowerCase label)"

text \<open>
  The cascade of the specification, rule after rule over the whole catalog: exact match,
  case-insensitive match, substring match (first label in declared order), synonym
  mapping, default to the first label, and \<open>null\<close> (\<open>None\<close>) for an empty catalog. It is
  compared with the source's functions below; its synonym rule uses the source's table.
\<close>

definition spec_enum_cascade :: "string \<Rightarrow> string list \<Rightarrow> string option" where
  "spec_enum_cascade v catalog =
     (if v \<in> set catalog then Some v
      else
        (case find (caseInsensitiveMatch v) catalog of
           Some l \<Rightarrow> Some l
         | None \<Rightarrow>
             (case find (substringMatch v) catalog of
                Some l \<Rightarrow> Some l
              | None \<Rightarrow>
                  (case find (synonymMatch v) catalog of
                     Some l \<Rightarrow> Some l
                   | None \<Rightarrow> (case catalog of l # _ \<Rightarrow> Some l | [] \<Rightarrow> None)))))"

section \<open>Example connections\<close>

text \<open>
  Three target connections on a world without state, used to run the loader on concrete
  batches. \<open>checkConn\<close> is a table with a check constraint that the value \<open>"bad"\<close>
  violates: a statement with such a parameter raises, any other reports one row.
  \<open>skipConn\<close> is a table that holds the row \<open>id = 1\<close> and rejects \<open>id = 2\<close>, written
  to with \<open>ON CONFLICT DO NOTHING\<close>: the statement for both rows raises, the statement for
  row \<open>1\<close> alone reports no row, the statement for row \<open>2\<close> alone raises.
  \<open>idTable\<close> is a table whose only column is \<open>id\<close> and that accepts every statement,
  reporting as many rows as it got parameters.
\<close>

definition checkConn :: "unit connection" where
  "checkConn w q vs =
     (if JStr ''bad'' \<in> set vs
      then (Inl (Error ''new row violates check constraint''), w)
      else (Inr \<lparr>rowCount = Some 1, rows = []\<rparr>, w))"

definition skipConn :: "unit connection" where
  "skipConn w q vs =
     (if \<not> endsWith q '' ON CONFLICT DO NOTHING'' then (Inl (Error ''duplicate key value''), w)
      else if vs = [JNum 1] then (Inr \<lparr>rowCount = Some 0, rows = []\<rparr>, w)
      else (Inl (Error ''new row violates check constraint''), w))"

definition idTable :: "unit connection" where
  "idTable w q vs =
     (if q = columnsQuery
      then (Inr \<lparr>rowCount = Some 1, rows = [[(''column_name'', JStr ''id'')]]\<rparr>, w)
      else (Inr \<lparr>rowCount = Some (length vs), rows = []\<rparr>, w))"

text \<open>
  \<open>existingRowConn\<close> is a table with the columns \<open>id\<close> and \<open>name\<close> that already holds
  the row \<open>id = 1\<close>: a statement with \<open>ON CONFLICT DO NOTHING\<close> inserts every row it is
  given but that one, any other statement raises a duplicate key.
\<close>

definition existingRowConn :: "unit connection" where
  "existingRowConn w q vs =
     (if q = columnsQuery
      then (Inr \<lparr>rowCount = Some 2,
                 rows = [[(''column_name'', JStr ''id'')], [(''column_name'', JStr ''name'')]]\<rparr>, w)
      else if endsWith q '' ON CONFLICT DO NOTHING''
      then (Inr \<lparr>rowCount = Some (length vs div 2 - (if JNum 1 \<in> set vs then 1 else 0)),
                 rows = []\<rparr>, w)
      else (Inl (Error ''duplicate key value violates unique constraint''), w))"

section \<open>Example runs\<close>

text \<open>
  Collaborators for a run on a world without state: Metabase lists the given tables, counts
  and extracts as the two functions say (by table id), the target has no foreign keys and
  no enum types, and every other call succeeds.
\<close>

definition exampleServices ::
  "unit connection \<Rightarrow> table list \<Rightarrow> (int \<Rightarrow> nat) \<Rightarrow> (int \<Rightarrow> extract_result) \<Rightarrow> unit services" where
  "exampleServices conn tables counts extr =
     \<lparr>stringify = (\<lambda>_. []),
      query = conn,
      authenticate = (\<lambda>w u p. (\<lparr>au_success = True, au_error = None\<rparr>, w)),
      connectionInitialize = (\<lambda>w. (Inr (), w)),
      dataInitialize = (\<lambda>w. (True, w)),
      connectLocal = (\<lambda>w. (Inr (), w)),
      getTables = (\<lambda>w. (Inr \<lparr>tr_success = True, tr_tables = tables, tr_error = None\<rparr>, w)),
      getTableDependencies = (\<lambda>w. (Inr Map.empty, w)),
      discoverEnumValues = (\<lambda>w. (Map.empty, w)),
      getEnumColumns = (\<lambda>w t m. ([], w)),
      getTableRowCount = (\<lambda>w i. (Inr \<lparr>cr_success = True, cr_count = counts i\<rparr>, w)),
      extractAllTableData = (\<lambda>w i n. (Inr (extr i), w)),
      closeAndLogout = (\<lambda>w. w)\<rparr>"

text \<open>
  The orchestrator as its constructor leaves it, for a given configuration, and two
  configurations with a batch size of 2: the constructor's (conflict policy \<open>error\<close>,
  rollback enabled), and the one that \<open>configure({enableRollback: false, continueOnError:
  true})\<close> gives, which is what \<open>--ignore-errors\<close> asks for. \<open>skipConfig\<close> is the first with
  the conflict policy \<open>skip\<close>.
\<close>

definition initialSys :: "sync_config \<Rightarrow> unit sys" where
  "initialSys cfg =
     \<lparr>world = (),
      syncConfig = cfg,
      syncStats = \<lparr>totalTables = 0, successfulTables = 0, failedTables = [],
                   totalRemoteRows = 0, syncedRows = 0\<rparr>,
      transformationStatsOf = resetStats,
      dataService = \<lparr>isInitialized = False, batchSize = 2\<rparr>\<rparr>"

definition defaultConfig :: sync_config where
  "defaultConfig =
     \<lparr>cfg_batchSize = 2, cfg_onConflict = ''error'', enableRollback = True,
      enableTransformation = True, continueOnError = None\<rparr>"

definition ignoreErrorsConfig :: sync_config where
  "ignoreErrorsConfig = defaultConfig\<lparr>enableRollback := False, continueOnError := Some True\<rparr>"

definition skipConfig :: sync_config where
  "skipConfig = defaultConfig\<lparr>cfg_onConflict := ''skip''\<rparr>"

text \<open>
  Two tables. \<open>users\<close> has two rows upstream, which extraction returns. \<open>orders\<close> is
  counted with three rows; in \<open>failingExtract\<close> its extraction fails, in \<open>emptyExtract\<close> it
  succeeds and returns no row.
\<close>

definition usersTable :: table where
  "usersTable = \<lparr>tid = 1, tname = ''users''\<rparr>"

definition ordersTable :: table where
  "ordersTable = \<lparr>tid = 2, tname = ''orders''\<rparr>"

definition exampleCounts :: "int \<Rightarrow> nat" where
  "exampleCounts i = (if i = 1 then 2 else 3)"

definition usersRows :: "row list" where
  "usersRows = [[(''id'', JNum 1), (''name'', JStr ''A'')], [(''id'', JNum 2), (''name'', JStr ''B'')]]"

definition failingExtract :: "int \<Rightarrow> extract_result" where
  "failingExtract i =
     (if i = 1 then \<lparr>ex_success = True, ex_data = usersRows, ex_error = None\<rparr>
      else \<lparr>ex_success = False, ex_data = [], ex_error = Some ''Batch extraction failed: timeout''\<rparr>)"

definition emptyExtract :: "int \<Rightarrow> extract_result" where
  "emptyExtract i =
     (if i = 1 then \<lparr>ex_success = True, ex_data = usersRows, ex_error = None\<rparr>
      else \<lparr>ex_success = True, ex_data = [], ex_error = None\<rparr>)"

text \<open>
  \<open>mismatchedExtract\<close> returns three rows for \<open>users\<close>, the last of which shares no key
  with a table whose only column is \<open>id\<close>.
\<close>

definition mismatchedRows :: "row list" where
  "mismatchedRows = [[(''id'', JNum 1)], [(''id'', JNum 2)], [(''x'', JNum 3)]]"

definition mismatchedExtract :: "int \<Rightarrow> extract_result" where
  "mismatchedExtract i = \<lparr>ex_success = True, ex_data = mismatchedRows, ex_error = None\<rparr>"

definition exampleCredentials :: credentials where
  "exampleCredentials = \<lparr>username = ''user@example.com'', password = ''secret''\<rparr>"

text \<open>
  \<open>acceptingConn\<close> is a target whose tables have the columns \<open>id\<close> and \<open>name\<close> and that
  accepts every statement, reporting one row for each two parameters.
\<close>

definition acceptingConn :: "unit connection" where
  "acceptingConn w q vs =
     (if q = columnsQuery
      then (Inr \<lparr>rowCount = Some 2,
                 rows = [[(''column_name'', JStr ''id'')], [(''column_name'', JStr ''name'')]]\<rparr>, w)
      else (Inr \<lparr>rowCount = Some (length vs div 2), rows = []\<rparr>, w))"

text \<open>
  The state after \<open>authenticateAndConnect\<close> has succeeded: the data service is initialised.
\<close>

definition connectedSys :: "sync_config \<Rightarrow> unit sys" where
  "connectedSys cfg = (initialSys cfg)\<lparr>dataService := \<lparr>isInitialized = True, batchSize = 2\<rparr>\<rparr>"

definition exampleTableCounts :: "(string \<times> nat) list" where
  "exampleTableCounts = [(''users'', 2), (''orders'', 3)]"

section \<open>Planner: properties\<close>

text \<open>
  What a call of \<open>visit\<close> and of the inner \<open>forEach\<close> does to the state when it
  returns: \<open>visiting\<close> is restored, \<open>visited\<close> only grows, by tables of the list (or the
  visited table itself) that are not on the recursion stack and whose entry in
  \<open>dependencies\<close> is not an inherited member, the visited table ends in \<open>visited\<close> unless
  it is on the stack, and \<open>sorted\<close> stays a duplicate-free listing of \<open>visited\<close>. The
  only error a call raises is the \<open>TypeError\<close> of \<open>deps.forEach\<close>, and it raises none when
  no table of the list reads an inherited member.
\<close>

lemma visit_frame:
  "(\<forall>s'. visit tn dm t s = Inr s' \<longrightarrow>
      visiting s' = visiting s \<and> visited s \<subseteq> visited s' \<and>
      visited s' \<subseteq> visited s \<union> insert t (set tn) \<and>
      (visited s' - visited s) \<inter> visiting s = {} \<and>
      (t \<in> visiting s \<or> t \<in> visited s') \<and>
      (\<forall>x\<in>visited s' - visited s. readArray dm x \<noteq> InheritedMember) \<and>
      ((set (sortedL s) = visited s \<and> distinct (sortedL s)) \<longrightarrow>
         (set (sortedL s') = visited s' \<and> distinct (sortedL s')))) \<and>
   (\<forall>e. visit tn dm t s = Inl e \<longrightarrow> e = TypeError ''deps.forEach is not a function'') \<and>
   ((\<forall>x\<in>insert t (set tn). readArray dm x \<noteq> InheritedMember) \<longrightarrow>
      (\<exists>s'. visit tn dm t s = Inr s'))"
  "(\<forall>s'. visit_deps tn dm ds s = Inr s' \<longrightarrow>
      visiting s' = visiting s \<and> visited s \<subseteq> visited s' \<and>
      visited s' \<subseteq> visited s \<union> set tn \<and>
      (visited s' - visited s) \<inter> visiting s = {} \<and>
      (\<forall>x\<in>visited s' - visited s. readArray dm x \<noteq> InheritedMember) \<and>
      ((set (sortedL s) = visited s \<and> distinct (sortedL s)) \<longrightarrow>
         (set (sortedL s') = visited s' \<and> distinct (sortedL s')))) \<and>
   (\<forall>e. visit_deps tn dm ds s = Inl e \<longrightarrow> e = TypeError ''deps.forEach is not a function'') \<and>
   ((\<forall>x\<in>set tn. readArray dm x \<noteq> InheritedMember) \<longrightarrow>
      (\<exists>s'. visit_deps tn dm ds s = Inr s'))"
proof (induction tn dm t s and tn dm ds s rule: visit_visit_deps.induct)
  case (1 tn dm t s)
  show ?case
  proof (cases "t \<in> visiting s \<or> t \<in> visited s")
    case True
    then have "visit tn dm t s = Inr s" by auto
    then show ?thesis using True by auto
  next
    case False
    then have F: "t \<notin> visiting s" "t \<notin> visited s" by simp_all
    define s1 where "s1 = s\<lparr>visiting := insert t (visiting s)\<rparr>"
    have s1v: "visiting s1 = insert t (visiting s)" "visited s1 = visited s"
      "sortedL s1 = sortedL s"
      by (simp_all add: s1_def)
    show ?thesis
    proof (cases "readArray dm t")
      case InheritedMember
      then have "visit tn dm t s = Inl (TypeError ''deps.forEach is not a function'')"
        using F by (simp add: Let_def)
      then show ?thesis using InheritedMember by simp
    next
      case NoProperty
      then have res: "visit tn dm t s =
          Inr (s1\<lparr>sortedL := sortedL s1 @ [t], visited := insert t (visited s1),
                  visiting := visiting s1 - {t}\<rparr>)"
        using F by (simp add: Let_def s1_def)
      have safe: "readArray dm t \<noteq> InheritedMember" using NoProperty by simp
      define s' where "s' = s1\<lparr>sortedL := sortedL s1 @ [t], visited := insert t (visited s1),
                  visiting := visiting s1 - {t}\<rparr>"
      have sv: "visiting s' = visiting s" "visited s' = insert t (visited s)"
        "sortedL s' = sortedL s @ [t]"
        using F by (auto simp: s'_def s1_def)
      have "visit tn dm t s = Inr s'" unfolding res s'_def ..
      moreover have "(visited s' - visited s) \<inter> visiting s = {}" unfolding sv using F by blast
      moreover have "\<forall>x\<in>visited s' - visited s. readArray dm x \<noteq> InheritedMember"
        unfolding sv using safe by blast
      moreover have "(set (sortedL s) = visited s \<and> distinct (sortedL s)) \<longrightarrow>
           (set (sortedL s') = visited s' \<and> distinct (sortedL s'))"
        unfolding sv using F by simp
      moreover have "visited s \<subseteq> visited s'" "visited s' \<subseteq> visited s \<union> insert t (set tn)"
        "t \<in> visiting s \<or> t \<in> visited s'"
        unfolding sv by blast+
      ultimately show ?thesis using sv(1) by simp
    next
      case (ArrayOf deps)
      note IH = "1.IH"[OF F s1_def ArrayOf]
      show ?thesis
      proof (cases "visit_deps tn dm deps s1")
        case (Inl e)
        then have res: "visit tn dm t s = Inl e"
          using F ArrayOf by (simp add: Let_def s1_def)
        have "e = TypeError ''deps.forEach is not a function''"
          using IH[THEN conjunct2, THEN conjunct1, rule_format, OF Inl] .
        moreover have "\<not> (\<forall>x\<in>set tn. readArray dm x \<noteq> InheritedMember)"
          using IH[THEN conjunct2, THEN conjunct2] Inl by auto
        ultimately show ?thesis unfolding res by simp
      next
        case (Inr s2)
        then have res: "visit tn dm t s =
            Inr (s2\<lparr>sortedL := sortedL s2 @ [t], visited := insert t (visited s2),
                    visiting := visiting s2 - {t}\<rparr>)"
          using F ArrayOf by (simp add: Let_def s1_def)
        have A: "visiting s2 = visiting s1" "visited s1 \<subseteq> visited s2"
          "visited s2 \<subseteq> visited s1 \<union> set tn"
          "(visited s2 - visited s1) \<inter> visiting s1 = {}"
          "\<forall>x\<in>visited s2 - visited s1. readArray dm x \<noteq> InheritedMember"
          "(set (sortedL s1) = visited s1 \<and> distinct (sortedL s1)) \<longrightarrow>
             (set (sortedL s2) = visited s2 \<and> distinct (sortedL s2))"
          using IH[THEN conjunct1, rule_format, OF Inr] by blast+
        have tn2: "t \<notin> visited s2" using A(4) F unfolding s1v by blast
        have safe: "readArray dm t \<noteq> InheritedMember" using ArrayOf by simp
        define s' where "s' = s2\<lparr>sortedL := sortedL s2 @ [t], visited := insert t (visited s2),
                    visiting := visiting s2 - {t}\<rparr>"
        have sv: "visiting s' = visiting s2 - {t}" "visited s' = insert t (visited s2)"
          "sortedL s' = sortedL s2 @ [t]"
          by (simp_all add: s'_def)
        have c1: "visiting s' = visiting s" unfolding sv A(1) s1v using F by blast
        have c2: "visited s \<subseteq> visited s'" unfolding sv using A(2) unfolding s1v by blast
        have c3: "visited s' \<subseteq> visited s \<union> insert t (set tn)"
          unfolding sv using A(3) unfolding s1v by blast
        have c4: "(visited s' - visited s) \<inter> visiting s = {}"
          unfolding sv using A(4) F unfolding s1v by blast
        have c5: "t \<in> visiting s \<or> t \<in> visited s'" unfolding sv by simp
        have c6: "\<forall>x\<in>visited s' - visited s. readArray dm x \<noteq> InheritedMember"
          unfolding sv using A(5) safe unfolding s1v by blast
        have c7: "(set (sortedL s) = visited s \<and> distinct (sortedL s)) \<longrightarrow>
           (set (sortedL s') = visited s' \<and> distinct (sortedL s'))"
        proof
          assume "set (sortedL s) = visited s \<and> distinct (sortedL s)"
          with A(6) have "set (sortedL s2) = visited s2" "distinct (sortedL s2)"
            unfolding s1v by blast+
          then show "set (sortedL s') = visited s' \<and> distinct (sortedL s')"
            unfolding sv using tn2 by simp
        qed
        have "visit tn dm t s = Inr s'" unfolding res s'_def ..
        then show ?thesis using c1 c2 c3 c4 c5 c6 c7 by simp
      qed
    qed
  qed
next
  case (2 tn dm s)
  then show ?case by simp
next
  case (3 tn dm d rest s)
  show ?case
  proof (cases "d \<in> set tn")
    case False
    then have res: "visit_deps tn dm (d # rest) s = visit_deps tn dm rest s" by simp
    show ?thesis unfolding res using "3.IH"(3)[OF False] .
  next
    case True
    note IH1 = "3.IH"(1)[OF True]
    have ins: "insert d (set tn) = set tn" using True by auto
    show ?thesis
    proof (cases "visit tn dm d s")
      case (Inl e)
      then have res: "visit_deps tn dm (d # rest) s = Inl e" using True by simp
      have "e = TypeError ''deps.forEach is not a function''"
        using IH1[THEN conjunct2, THEN conjunct1, rule_format, OF Inl] .
      moreover have "\<not> (\<forall>x\<in>set tn. readArray dm x \<noteq> InheritedMember)"
        using IH1[THEN conjunct2, THEN conjunct2] Inl unfolding ins by auto
      ultimately show ?thesis unfolding res by simp
    next
      case (Inr x)
      then have res: "visit_deps tn dm (d # rest) s = visit_deps tn dm rest x"
        using True by simp
      have A: "visiting x = visiting s" "visited s \<subseteq> visited x"
        "visited x \<subseteq> visited s \<union> set tn"
        "(visited x - visited s) \<inter> visiting s = {}"
        "\<forall>y\<in>visited x - visited s. readArray dm y \<noteq> InheritedMember"
        "(set (sortedL s) = visited s \<and> distinct (sortedL s)) \<longrightarrow>
           (set (sortedL x) = visited x \<and> distinct (sortedL x))"
        using IH1[THEN conjunct1, rule_format, OF Inr] unfolding ins by blast+
      note IH2 = "3.IH"(2)[OF True Inr]
      have B: "\<forall>s'. visit_deps tn dm rest x = Inr s' \<longrightarrow>
          visiting s' = visiting x \<and> visited x \<subseteq> visited s' \<and>
          visited s' \<subseteq> visited x \<union> set tn \<and>
          (visited s' - visited x) \<inter> visiting x = {} \<and>
          (\<forall>y\<in>visited s' - visited x. readArray dm y \<noteq> InheritedMember) \<and>
          ((set (sortedL x) = visited x \<and> distinct (sortedL x)) \<longrightarrow>
             (set (sortedL s') = visited s' \<and> distinct (sortedL s')))"
        and C: "\<forall>e. visit_deps tn dm rest x = Inl e \<longrightarrow> e = TypeError ''deps.forEach is not a function''"
        and D: "(\<forall>y\<in>set tn. readArray dm y \<noteq> InheritedMember) \<longrightarrow>
                  (\<exists>s'. visit_deps tn dm rest x = Inr s')"
        using IH2 by (rule conjunct1, rule conjunct2[THEN conjunct1], rule conjunct2[THEN conjunct2])
      have P1: "visiting s' = visiting s \<and> visited s \<subseteq> visited s' \<and>
          visited s' \<subseteq> visited s \<union> set tn \<and>
          (visited s' - visited s) \<inter> visiting s = {} \<and>
          (\<forall>y\<in>visited s' - visited s. readArray dm y \<noteq> InheritedMember) \<and>
          ((set (sortedL s) = visited s \<and> distinct (sortedL s)) \<longrightarrow>
             (set (sortedL s') = visited s' \<and> distinct (sortedL s')))"
        if "visit_deps tn dm rest x = Inr s'" for s'
      proof -
        from B[rule_format, OF that] have B': "visiting s' = visiting x" "visited x \<subseteq> visited s'"
          "visited s' \<subseteq> visited x \<union> set tn"
          "(visited s' - visited x) \<inter> visiting x = {}"
          "\<forall>y\<in>visited s' - visited x. readArray dm y \<noteq> InheritedMember"
          "(set (sortedL x) = visited x \<and> distinct (sortedL x)) \<longrightarrow>
             (set (sortedL s') = visited s' \<and> distinct (sortedL s'))"
          by blast+
        have "visiting s' = visiting s" using A(1) B'(1) by simp
        moreover have "visited s \<subseteq> visited s'" using A(2) B'(2) by blast
        moreover have "visited s' \<subseteq> visited s \<union> set tn" using A(3) B'(3) by blast
        moreover have "(visited s' - visited s) \<inter> visiting s = {}"
          using A(4) B'(4) unfolding A(1) by blast
        moreover have "\<forall>y\<in>visited s' - visited s. readArray dm y \<noteq> InheritedMember"
          using A(5) B'(5) by blast
        moreover have "(set (sortedL s) = visited s \<and> distinct (sortedL s)) \<longrightarrow>
             (set (sortedL s') = visited s' \<and> distinct (sortedL s'))"
          using A(6) B'(6) by blast
        ultimately show ?thesis by (intro conjI)
      qed
      show ?thesis unfolding res using P1 C D by (intro conjI allI impI) blast+
    qed
  qed
qed

text \<open>The outer loop, started in any state with an empty recursion stack.\<close>

lemma visit_all_frame:
  assumes "set ts \<subseteq> set tn" "visiting s = {}" "visited s \<subseteq> set tn"
    "set (sortedL s) = visited s" "distinct (sortedL s)"
    "\<forall>x\<in>visited s. readArray dm x \<noteq> InheritedMember"
  shows "(\<forall>s'. visit_all tn dm ts s = Inr s' \<longrightarrow>
            visiting s' = {} \<and> visited s \<union> set ts \<subseteq> visited s' \<and> visited s' \<subseteq> set tn \<and>
            set (sortedL s') = visited s' \<and> distinct (sortedL s') \<and>
            (\<forall>x\<in>visited s'. readArray dm x \<noteq> InheritedMember)) \<and>
         (\<forall>e. visit_all tn dm ts s = Inl e \<longrightarrow> e = TypeError ''deps.forEach is not a function'') \<and>
         ((\<forall>x\<in>set tn. readArray dm x \<noteq> InheritedMember) \<longrightarrow>
            (\<exists>s'. visit_all tn dm ts s = Inr s'))"
  using assms
proof (induction ts arbitrary: s)
  case Nil
  then show ?case by simp
next
  case (Cons t ts)
  have t_in: "t \<in> set tn" and ts_in: "set ts \<subseteq> set tn" using Cons.prems(1) by simp_all
  have ins: "insert t (set tn) = set tn" using t_in by auto
  show ?case
  proof (cases "t \<in> visited s")
    case True
    then have res: "visit_all tn dm (t # ts) s = visit_all tn dm ts s" by simp
    note IH = Cons.IH[OF ts_in Cons.prems(2-6)]
    have "visited s \<union> set (t # ts) \<subseteq> visited s'" if "visit_all tn dm ts s = Inr s'" for s'
      using IH[THEN conjunct1, rule_format, OF that] True by auto
    then show ?thesis unfolding res using IH by blast
  next
    case False
    note V = visit_frame(1)[of tn dm t s]
    show ?thesis
    proof (cases "visit tn dm t s")
      case (Inl e)
      then have res: "visit_all tn dm (t # ts) s = Inl e" using False by simp
      have "e = TypeError ''deps.forEach is not a function''"
        using V[THEN conjunct2, THEN conjunct1, rule_format, OF Inl] .
      moreover have "\<not> (\<forall>x\<in>set tn. readArray dm x \<noteq> InheritedMember)"
        using V[THEN conjunct2, THEN conjunct2] Inl unfolding ins by auto
      ultimately show ?thesis unfolding res by simp
    next
      case (Inr s1)
      then have res: "visit_all tn dm (t # ts) s = visit_all tn dm ts s1"
        using False by simp
      have F: "visiting s1 = visiting s" "visited s \<subseteq> visited s1"
        "visited s1 \<subseteq> visited s \<union> insert t (set tn)"
        "t \<in> visiting s \<or> t \<in> visited s1"
        "\<forall>x\<in>visited s1 - visited s. readArray dm x \<noteq> InheritedMember"
        "(set (sortedL s) = visited s \<and> distinct (sortedL s)) \<longrightarrow>
           (set (sortedL s1) = visited s1 \<and> distinct (sortedL s1))"
        using V[THEN conjunct1, rule_format, OF Inr] by blast+
      have G: "visiting s1 = {}" "visited s1 \<subseteq> set tn" "set (sortedL s1) = visited s1"
        "distinct (sortedL s1)" "t \<in> visited s1"
        using F Cons.prems(2-5) unfolding ins by auto
      have safe: "\<forall>x\<in>visited s1. readArray dm x \<noteq> InheritedMember"
        using F(5) Cons.prems(6) by blast
      note IH = Cons.IH[OF ts_in G(1) G(2) G(3) G(4) safe]
      have "visited s \<union> set (t # ts) \<subseteq> visited s'" if "visit_all tn dm ts s1 = Inr s'" for s'
        using IH[THEN conjunct1, rule_format, OF that] F(2) G(5) by auto
      then show ?thesis unfolding res using IH by blast
    qed
  qed
qed

text \<open>
  \<open>sortTablesByDependencies\<close> raises exactly when the entry of a table of the list is an
  inherited member; otherwise it returns each name of the list once, and no other name.
\<close>

lemma sortTablesByDependencies_raises:
  assumes "\<exists>t\<in>set tn. readArray dm t = InheritedMember"
  shows "sortTablesByDependencies tn dm = Inl (TypeError ''deps.forEach is not a function'')"
proof -
  note F = visit_all_frame[of tn tn "\<lparr>sortedL = [], visited = {}, visiting = {}\<rparr>" dm, simplified]
  show ?thesis
  proof (cases "visit_all tn dm tn \<lparr>sortedL = [], visited = {}, visiting = {}\<rparr>")
    case (Inl e)
    then have "e = TypeError ''deps.forEach is not a function''" using F by blast
    then show ?thesis using Inl by (simp add: sortTablesByDependencies_def)
  next
    case (Inr s')
    then have "set tn \<subseteq> visited s'" "\<forall>x\<in>visited s'. readArray dm x \<noteq> InheritedMember"
      using F by blast+
    then have False using assms by blast
    then show ?thesis ..
  qed
qed

lemma sortTablesByDependencies_returns:
  assumes "\<forall>t\<in>set tn. readArray dm t \<noteq> InheritedMember"
  shows "\<exists>xs. sortTablesByDependencies tn dm = Inr xs \<and> distinct xs \<and> set xs = set tn"
proof -
  note F = visit_all_frame[of tn tn "\<lparr>sortedL = [], visited = {}, visiting = {}\<rparr>" dm, simplified]
  from F assms obtain s' where s': "visit_all tn dm tn \<lparr>sortedL = [], visited = {}, visiting = {}\<rparr> = Inr s'"
    by blast
  then have "set tn \<subseteq> visited s'" "visited s' \<subseteq> set tn" "set (sortedL s') = visited s'"
    "distinct (sortedL s')"
    using F by blast+
  then show ?thesis using s' by (auto simp: sortTablesByDependencies_def)
qed

lemma sortTablesByDependencies_result:
  assumes "sortTablesByDependencies tn dm = Inr xs"
  shows "mset xs = mset (remdups tn)"
proof -
  have "\<forall>t\<in>set tn. readArray dm t \<noteq> InheritedMember"
  proof (rule ccontr)
    assume "\<not> (\<forall>t\<in>set tn. readArray dm t \<noteq> InheritedMember)"
    then have "\<exists>t\<in>set tn. readArray dm t = InheritedMember" by blast
    from sortTablesByDependencies_raises[OF this] assms show False by simp
  qed
  from sortTablesByDependencies_returns[OF this] assms
  have "distinct xs" "set xs = set tn" by auto
  then show ?thesis by (metis distinct_remdups set_remdups set_eq_iff_mset_eq_distinct)
qed

text \<open>
  Claim C9, on the source: the list holds the table \<open>constructor\<close> and the dependency map
  is the empty object, which is what \<open>getTableDependencies\<close> returns for a database without
  a foreign key. The claim says that the function returns a permutation of the list;
  \<open>dependencies["constructor"]\<close> is the function \<open>Object\<close> that every object inherits, and
  the call raises \<open>TypeError: deps.forEach is not a function\<close>, also when the other tables
  of the list have been visited.
\<close>

theorem sortTablesByDependencies_raises_on_constructor:
  "sortTablesByDependencies [''constructor''] Map.empty =
     Inl (TypeError ''deps.forEach is not a function'') \<and>
   sortTablesByDependencies [''users'', ''constructor'', ''orders''] [''orders'' \<mapsto> [''users'']] =
     Inl (TypeError ''deps.forEach is not a function'')"
  by code_simp

text \<open>
  Claim C3, as amended. For the tables users, orders, products, order\_items in that
  discovery order, with the edges orders to users, order\_items to orders and order\_items
  to products, the insertion order is users, orders, products, order\_items (each table
  is appended as soon as its dependencies are, in discovery order), and the deletion
  order is its exact reverse: order\_items, products, orders, users.
\<close>

theorem shop_insertion_and_deletion_order:
  "sortTablesByDependencies (map tname shopTables) shopDependencies =
     Inr [''users'', ''orders'', ''products'', ''order_items''] \<and>
   clearingOrder shopTables shopDependencies =
     Inr [''order_items'', ''products'', ''orders'', ''users''] \<and>
   clearingOrder shopTables shopDependencies =
     map_sum id rev (sortTablesByDependencies (map tname shopTables) shopDependencies)"
  by code_simp

text \<open>
  Claim C3 as stated: the insertion order is not users, products, orders, order\_items.
\<close>

theorem shop_insertion_order_counterexample:
  "sortTablesByDependencies (map tname shopTables) shopDependencies \<noteq>
     Inr [''users'', ''products'', ''orders'', ''order_items'']"
  by code_simp

section \<open>Transformer: properties\<close>

text \<open>
  \<open>findPartialMatch\<close> is a search for the first label that matches by containment or
  by the abbreviation table.
\<close>

lemma partialMatch_loop_find:
  "partialMatch_loop cur xs =
     find (\<lambda>valid. str_includes (toLowerCase valid) cur \<or> str_includes cur (toLowerCase valid) \<or>
                    isCommonAbbreviation cur (toLowerCase valid)) xs"
  by (induction xs) (auto simp: Let_def)

lemma findPartialMatch_find:
  "findPartialMatch v catalog = find (\<lambda>l. substringMatch v l \<or> synonymMatch v l) catalog"
  by (simp add: findPartialMatch_def partialMatch_loop_find substringMatch_def synonymMatch_def)

lemma find_first_index:
  "find P xs = Some x \<Longrightarrow> \<exists>i<length xs. x = xs ! i \<and> P (xs ! i) \<and> (\<forall>j<i. \<not> P (xs ! j))"
  by (auto simp: find_Some_iff)

lemma find_exists: "\<exists>l\<in>set xs. P l \<Longrightarrow> \<exists>x. find P xs = Some x \<and> x \<in> set xs"
  by (metis find_None_iff find_Some_iff nth_mem option.exhaust)

text \<open>
  Claim C5, as amended. For a row \<open>{type: "INVALID_TYPE"}\<close> in a column of enum type
  \<open>type_enum\<close> with catalog \<open>["USER", "ADMIN"]\<close>, the transformer outputs
  \<open>{type: "USER"}\<close>, the first catalog label. The statistics have no counter of their
  own for a default substitution: the substitution increments \<open>nullTransformations\<close>,
  the counter of the null path, by exactly 1, \<open>enumTransformations\<close> by 1 and
  \<open>totalTransformations\<close> by the number of rows (1).
\<close>

theorem enum_default_substitution:
  "transformTableData (\<lambda>w t m. ([\<lparr>column_name = ''type'', udt_name = ''type_enum''\<rparr>], w)) tName
     [[(''type'', JStr ''INVALID_TYPE'')]] [''type_enum'' \<mapsto> [''USER'', ''ADMIN'']] (st, w) =
   (Inr [[(''type'', JStr ''USER'')]],
    st\<lparr>totalTransformations := totalTransformations st + 1,
       enumTransformations := enumTransformations st + 1,
       nullTransformations := nullTransformations st + 1\<rparr>, w)"
proof -
  have "transformEnumValue (JStr ''INVALID_TYPE'') [''USER'', ''ADMIN''] st =
        (Inr (JStr ''USER''), st\<lparr>nullTransformations := nullTransformations st + 1\<rparr>)"
    by (simp add: transformEnumValue_def toLowerCase_def truthy_def findPartialMatch_def
        isCommonAbbreviation_def abbreviations_def Let_def)
  then show ?thesis
    by (simp add: transformTableData_def transformColumn_def getProp_def setProp_def
        readArray_def arrayIncludes_def Let_def)
qed

text \<open>
  Claim C5 as stated asks for a counter of default substitutions that is separate from the
  null-substitution counter. No counter tells the two apart: the statistics after the
  default substitution are the statistics after the same row is set to \<open>null\<close> against
  an empty catalog, and the counter that moved is \<open>nullTransformations\<close>.
\<close>

theorem default_substitution_counter_counterexample:
  "fst (snd (transformTableData (\<lambda>w t m. ([\<lparr>column_name = ''type'', udt_name = ''type_enum''\<rparr>], w))
      ''users'' [[(''type'', JStr ''INVALID_TYPE'')]] [''type_enum'' \<mapsto> [''USER'', ''ADMIN'']]
      (resetStats, ()))) =
   fst (snd (transformTableData (\<lambda>w t m. ([\<lparr>column_name = ''type'', udt_name = ''type_enum''\<rparr>], w))
      ''users'' [[(''type'', JStr ''INVALID_TYPE'')]] [''type_enum'' \<mapsto> []]
      (resetStats, ()))) \<and>
   nullTransformations (fst (snd (transformTableData
      (\<lambda>w t m. ([\<lparr>column_name = ''type'', udt_name = ''type_enum''\<rparr>], w))
      ''users'' [[(''type'', JStr ''INVALID_TYPE'')]] [''type_enum'' \<mapsto> [''USER'', ''ADMIN'']]
      (resetStats, ())))) = 1"
  by code_simp

text \<open>
  Claim C4 as stated fails where an earlier label matches by the abbreviation table and a
  later label by containment: for the value \<open>user\<close> and the catalog
  \<open>["INDIVIDUAL", "USERS"]\<close> there is no exact and no case-insensitive match, the
  substring rule matches \<open>USERS\<close> and not \<open>INDIVIDUAL\<close>, so the cascade of the
  specification gives \<open>USERS\<close>; the source gives \<open>INDIVIDUAL\<close>, by the synonym rule.
\<close>

theorem enum_cascade_counterexample:
  "fst (transformEnumValue (JStr ''user'') [''INDIVIDUAL'', ''USERS''] resetStats) =
     Inr (JStr ''INDIVIDUAL'') \<and>
   spec_enum_cascade ''user'' [''INDIVIDUAL'', ''USERS''] = Some ''USERS'' \<and>
   substringMatch ''user'' ''USERS'' \<and> \<not> substringMatch ''user'' ''INDIVIDUAL''"
  by code_simp

text \<open>
  The three outcomes of \<open>transformEnumValue\<close> on a string, for a catalog without an
  empty label (so that a label that was found is truthy), and the exact match, which
  \<open>transformTableData\<close> decides before it calls \<open>transformEnumValue\<close>.
\<close>

lemma truthy_Some: "truthy (Some l) = (l \<noteq> [])"
  by (simp add: truthy_def)

lemma transformEnumValue_closeMatch:
  assumes "[] \<notin> set catalog" "find (caseInsensitiveMatch v) catalog = Some l"
  shows "transformEnumValue (JStr v) catalog st = (Inr (JStr l), st)"
proof -
  have "l \<in> set catalog" using assms(2) by (auto simp: find_Some_iff)
  then have "l \<noteq> []" using assms(1) by auto
  moreover have "find (\<lambda>valid. toLowerCase valid = toLowerCase v) catalog = Some l"
    using assms(2) by (simp add: caseInsensitiveMatch_def[abs_def])
  ultimately show ?thesis
    by (simp add: transformEnumValue_def truthy_def fromNullable_def)
qed

lemma transformEnumValue_partialMatch:
  assumes "[] \<notin> set catalog" "find (caseInsensitiveMatch v) catalog = None"
    "find (\<lambda>l. substringMatch v l \<or> synonymMatch v l) catalog = Some l"
  shows "transformEnumValue (JStr v) catalog st = (Inr (JStr l), st)"
proof -
  have "l \<in> set catalog" using assms(3) by (auto simp: find_Some_iff)
  then have "l \<noteq> []" using assms(1) by auto
  moreover have "find (\<lambda>valid. toLowerCase valid = toLowerCase v) catalog = None"
    using assms(2) by (simp add: caseInsensitiveMatch_def[abs_def])
  ultimately show ?thesis using assms(3)
    by (simp add: transformEnumValue_def truthy_def fromNullable_def findPartialMatch_find)
qed

lemma transformEnumValue_default:
  assumes "find (caseInsensitiveMatch v) catalog = None"
    "find (\<lambda>l. substringMatch v l \<or> synonymMatch v l) catalog = None"
  shows "transformEnumValue (JStr v) catalog st =
           (case catalog of
              [] \<Rightarrow> (Inr JNull, st\<lparr>nullTransformations := nullTransformations st + 1\<rparr>)
            | l # _ \<Rightarrow> (Inr (JStr l), st\<lparr>nullTransformations := nullTransformations st + 1\<rparr>))"
proof -
  have "find (\<lambda>valid. toLowerCase valid = toLowerCase v) catalog = None"
    using assms(1) by (simp add: caseInsensitiveMatch_def[abs_def])
  then show ?thesis using assms(2)
    by (simp add: transformEnumValue_def truthy_def findPartialMatch_find split: list.splits)
qed

lemma transformColumn_exact:
  assumes "enumMap (udt_name col) = Some catalog" "getProp r (column_name col) = JStr v"
    "v \<in> set catalog"
  shows "transformColumn enumMap col r st = (Inr r, st)"
  using assms by (simp add: transformColumn_def readArray_def arrayIncludes_def Let_def)

lemma transformColumn_coerced:
  assumes "enumMap (udt_name col) = Some catalog" "getProp r (column_name col) = JStr v"
    "v \<notin> set catalog" "transformEnumValue (JStr v) catalog st = (Inr tv, st')"
    "tv \<noteq> JStr v"
  shows "transformColumn enumMap col r st =
           (Inr (setProp r (column_name col) tv),
            st'\<lparr>enumTransformations := enumTransformations st' + 1\<rparr>)"
  using assms by (simp add: transformColumn_def readArray_def arrayIncludes_def Let_def)

text \<open>
  \<open>toLowerCase\<close> folds the accented capitals: \<open>U+00C9\<close> matches the label \<open>U+00E9\<close>
  without regard to case.
\<close>

lemma transformEnumValue_accented_capital:
  "transformEnumValue (JStr [CHR 0xC9]) [''x'', [CHR 0xE9]] resetStats =
     (Inr (JStr [CHR 0xE9]), resetStats)"
  by code_simp

text \<open>
  Claim C4, as amended. For a column of an enum type with its catalog in \<open>enumMap\<close>, a
  catalog without an empty label and a string value in the row, the coercion
  short-circuits in this order: exact match (the row is left as it is and nothing is
  counted), case-insensitive match (the first label equal to the value under
  lower-casing), then one pass over the catalog in declared order that takes the first
  label matching by containment (either way, lower-cased) or by the abbreviation table,
  then the default, the first label (\<open>null\<close> for an empty catalog). The output is
  determined by the first of these stages that matches and a later stage never overrides
  an earlier one; inside the pass the first label in catalog order wins, whichever of
  the two rules matches it. Each stage after the first is stated for
  \<open>transformEnumValue\<close> and for the row: the column is assigned the label and
  \<open>enumTransformations\<close> is incremented, and the default also increments
  \<open>nullTransformations\<close>.
\<close>

theorem enum_cascade_order:
  assumes "[] \<notin> set catalog"
    and "enumMap (udt_name col) = Some catalog"
    and "getProp r (column_name col) = JStr v"
  shows
    "(v \<in> set catalog \<longrightarrow> transformColumn enumMap col r st = (Inr r, st)) \<and>
     (v \<notin> set catalog \<and> (\<exists>l\<in>set catalog. caseInsensitiveMatch v l) \<longrightarrow>
      (\<exists>i<length catalog.
         caseInsensitiveMatch v (catalog ! i) \<and>
         (\<forall>j<i. \<not> caseInsensitiveMatch v (catalog ! j)) \<and>
         transformEnumValue (JStr v) catalog st = (Inr (JStr (catalog ! i)), st) \<and>
         transformColumn enumMap col r st =
           (Inr (setProp r (column_name col) (JStr (catalog ! i))),
            st\<lparr>enumTransformations := enumTransformations st + 1\<rparr>))) \<and>
     (v \<notin> set catalog \<and> \<not> (\<exists>l\<in>set catalog. caseInsensitiveMatch v l) \<and>
      (\<exists>l\<in>set catalog. substringMatch v l \<or> synonymMatch v l) \<longrightarrow>
      (\<exists>i<length catalog.
         (substringMatch v (catalog ! i) \<or> synonymMatch v (catalog ! i)) \<and>
         (\<forall>j<i. \<not> (substringMatch v (catalog ! j) \<or> synonymMatch v (catalog ! j))) \<and>
         transformEnumValue (JStr v) catalog st = (Inr (JStr (catalog ! i)), st) \<and>
         transformColumn enumMap col r st =
           (Inr (setProp r (column_name col) (JStr (catalog ! i))),
            st\<lparr>enumTransformations := enumTransformations st + 1\<rparr>))) \<and>
     (v \<notin> set catalog \<and>
      \<not> (\<exists>l\<in>set catalog. caseInsensitiveMatch v l \<or> substringMatch v l \<or> synonymMatch v l) \<longrightarrow>
      transformEnumValue (JStr v) catalog st =
        (case catalog of
           [] \<Rightarrow> (Inr JNull, st\<lparr>nullTransformations := nullTransformations st + 1\<rparr>)
         | l # _ \<Rightarrow> (Inr (JStr l), st\<lparr>nullTransformations := nullTransformations st + 1\<rparr>)) \<and>
      transformColumn enumMap col r st =
        (Inr (setProp r (column_name col) (case catalog of [] \<Rightarrow> JNull | l # _ \<Rightarrow> JStr l)),
         st\<lparr>nullTransformations := nullTransformations st + 1,
            enumTransformations := enumTransformations st + 1\<rparr>))"
proof -
  have exact: "transformColumn enumMap col r st = (Inr r, st)" if "v \<in> set catalog"
    by (rule transformColumn_exact[where enumMap = enumMap and col = col, OF assms(2,3) that])
  have ci: "\<exists>i<length catalog.
         caseInsensitiveMatch v (catalog ! i) \<and>
         (\<forall>j<i. \<not> caseInsensitiveMatch v (catalog ! j)) \<and>
         transformEnumValue (JStr v) catalog st = (Inr (JStr (catalog ! i)), st) \<and>
         transformColumn enumMap col r st =
           (Inr (setProp r (column_name col) (JStr (catalog ! i))),
            st\<lparr>enumTransformations := enumTransformations st + 1\<rparr>)"
    if a: "v \<notin> set catalog \<and> (\<exists>l\<in>set catalog. caseInsensitiveMatch v l)"
  proof -
    from a have nv: "v \<notin> set catalog" and ex: "\<exists>l\<in>set catalog. caseInsensitiveMatch v l"
      by simp_all
    from find_exists[OF ex] obtain l where l: "find (caseInsensitiveMatch v) catalog = Some l"
      by auto
    from find_first_index[OF l] obtain i where i: "i < length catalog" "l = catalog ! i"
      "caseInsensitiveMatch v (catalog ! i)" "\<forall>j<i. \<not> caseInsensitiveMatch v (catalog ! j)"
      by auto
    have te: "transformEnumValue (JStr v) catalog st = (Inr (JStr (catalog ! i)), st)"
      using transformEnumValue_closeMatch[OF assms(1) l] i(2) by simp
    have "catalog ! i \<in> set catalog" using i(1) by simp
    then have ne: "JStr (catalog ! i) \<noteq> JStr v" using nv by auto
    have tc: "transformColumn enumMap col r st =
           (Inr (setProp r (column_name col) (JStr (catalog ! i))),
            st\<lparr>enumTransformations := enumTransformations st + 1\<rparr>)"
      by (rule transformColumn_coerced[where enumMap = enumMap and col = col, OF assms(2,3) nv te ne])
    from i(1,3,4) te tc show ?thesis by (intro exI[of _ i]) simp
  qed
  have pm: "\<exists>i<length catalog.
         (substringMatch v (catalog ! i) \<or> synonymMatch v (catalog ! i)) \<and>
         (\<forall>j<i. \<not> (substringMatch v (catalog ! j) \<or> synonymMatch v (catalog ! j))) \<and>
         transformEnumValue (JStr v) catalog st = (Inr (JStr (catalog ! i)), st) \<and>
         transformColumn enumMap col r st =
           (Inr (setProp r (column_name col) (JStr (catalog ! i))),
            st\<lparr>enumTransformations := enumTransformations st + 1\<rparr>)"
    if a: "v \<notin> set catalog \<and> \<not> (\<exists>l\<in>set catalog. caseInsensitiveMatch v l) \<and>
      (\<exists>l\<in>set catalog. substringMatch v l \<or> synonymMatch v l)"
  proof -
    from a have nv: "v \<notin> set catalog" by simp
    from a have none: "find (caseInsensitiveMatch v) catalog = None"
      by (simp add: find_None_iff)
    from a have "\<exists>l\<in>set catalog. substringMatch v l \<or> synonymMatch v l" by simp
    from find_exists[OF this] obtain l
      where l: "find (\<lambda>l. substringMatch v l \<or> synonymMatch v l) catalog = Some l"
      by auto
    from find_first_index[OF l] obtain i where i: "i < length catalog" "l = catalog ! i"
      "substringMatch v (catalog ! i) \<or> synonymMatch v (catalog ! i)"
      "\<forall>j<i. \<not> (substringMatch v (catalog ! j) \<or> synonymMatch v (catalog ! j))"
      by auto
    have te: "transformEnumValue (JStr v) catalog st = (Inr (JStr (catalog ! i)), st)"
      using transformEnumValue_partialMatch[OF assms(1) none l] i(2) by simp
    have "catalog ! i \<in> set catalog" using i(1) by simp
    then have ne: "JStr (catalog ! i) \<noteq> JStr v" using nv by auto
    have tc: "transformColumn enumMap col r st =
           (Inr (setProp r (column_name col) (JStr (catalog ! i))),
            st\<lparr>enumTransformations := enumTransformations st + 1\<rparr>)"
      by (rule transformColumn_coerced[where enumMap = enumMap and col = col, OF assms(2,3) nv te ne])
    from i(1,3,4) te tc show ?thesis by (intro exI[of _ i]) simp
  qed
  have dflt: "transformEnumValue (JStr v) catalog st =
        (case catalog of
           [] \<Rightarrow> (Inr JNull, st\<lparr>nullTransformations := nullTransformations st + 1\<rparr>)
         | l # _ \<Rightarrow> (Inr (JStr l), st\<lparr>nullTransformations := nullTransformations st + 1\<rparr>)) \<and>
      transformColumn enumMap col r st =
        (Inr (setProp r (column_name col) (case catalog of [] \<Rightarrow> JNull | l # _ \<Rightarrow> JStr l)),
         st\<lparr>nullTransformations := nullTransformations st + 1,
            enumTransformations := enumTransformations st + 1\<rparr>)"
    if a: "v \<notin> set catalog \<and>
      \<not> (\<exists>l\<in>set catalog. caseInsensitiveMatch v l \<or> substringMatch v l \<or> synonymMatch v l)"
  proof -
    from a have nv: "v \<notin> set catalog" by simp
    from a have "find (caseInsensitiveMatch v) catalog = None"
      "find (\<lambda>l. substringMatch v l \<or> synonymMatch v l) catalog = None"
      by (auto simp: find_None_iff)
    then have te: "transformEnumValue (JStr v) catalog st =
        (case catalog of
           [] \<Rightarrow> (Inr JNull, st\<lparr>nullTransformations := nullTransformations st + 1\<rparr>)
         | l # _ \<Rightarrow> (Inr (JStr l), st\<lparr>nullTransformations := nullTransformations st + 1\<rparr>))"
      by (rule transformEnumValue_default)
    have tc: "transformColumn enumMap col r st =
        (Inr (setProp r (column_name col) (case catalog of [] \<Rightarrow> JNull | l # _ \<Rightarrow> JStr l)),
         st\<lparr>nullTransformations := nullTransformations st + 1,
            enumTransformations := enumTransformations st + 1\<rparr>)"
    proof (cases catalog)
      case Nil
      have "transformEnumValue (JStr v) catalog st =
              (Inr JNull, st\<lparr>nullTransformations := nullTransformations st + 1\<rparr>)"
        using te Nil by simp
      from transformColumn_coerced[where enumMap = enumMap and col = col, OF assms(2,3) nv this] show ?thesis using Nil by simp
    next
      case (Cons l ls)
      have e: "transformEnumValue (JStr v) catalog st =
              (Inr (JStr l), st\<lparr>nullTransformations := nullTransformations st + 1\<rparr>)"
        using te Cons by simp
      have "JStr l \<noteq> JStr v" using nv Cons by auto
      from transformColumn_coerced[where enumMap = enumMap and col = col, OF assms(2,3) nv e this] show ?thesis using Cons by simp
    qed
    from te tc show ?thesis ..
  qed
  from exact ci pm dflt[THEN conjunct1] dflt[THEN conjunct2] show ?thesis
    by (intro conjI impI)
qed

text \<open>
  The theorem at the row \<open>{type: "user"}\<close> and the catalog \<open>["INDIVIDUAL", "USERS"]\<close>:
  no exact and no case-insensitive match, and a label that matches in the pass.
\<close>

theorem enum_cascade_order_witness:
  "[] \<notin> set [''INDIVIDUAL'', ''USERS''] \<and>
   [''type_enum'' \<mapsto> [''INDIVIDUAL'', ''USERS'']]
     (udt_name \<lparr>column_name = ''type'', udt_name = ''type_enum''\<rparr>) =
     Some [''INDIVIDUAL'', ''USERS''] \<and>
   getProp [(''type'', JStr ''user'')]
     (column_name \<lparr>column_name = ''type'', udt_name = ''type_enum''\<rparr>) = JStr ''user'' \<and>
   ''user'' \<notin> set [''INDIVIDUAL'', ''USERS''] \<and>
   \<not> (\<exists>l\<in>set [''INDIVIDUAL'', ''USERS'']. caseInsensitiveMatch ''user'' l) \<and>
   (\<exists>l\<in>set [''INDIVIDUAL'', ''USERS'']. substringMatch ''user'' l \<or> synonymMatch ''user'' l) \<and>
   (\<exists>i<length [''INDIVIDUAL'', ''USERS''].
      (substringMatch ''user'' ([''INDIVIDUAL'', ''USERS''] ! i) \<or>
       synonymMatch ''user'' ([''INDIVIDUAL'', ''USERS''] ! i)) \<and>
      (\<forall>j<i. \<not> (substringMatch ''user'' ([''INDIVIDUAL'', ''USERS''] ! j) \<or>
                 synonymMatch ''user'' ([''INDIVIDUAL'', ''USERS''] ! j))) \<and>
      transformEnumValue (JStr ''user'') [''INDIVIDUAL'', ''USERS''] resetStats =
        (Inr (JStr ([''INDIVIDUAL'', ''USERS''] ! i)), resetStats) \<and>
      transformColumn [''type_enum'' \<mapsto> [''INDIVIDUAL'', ''USERS'']]
          \<lparr>column_name = ''type'', udt_name = ''type_enum''\<rparr> [(''type'', JStr ''user'')]
          resetStats =
        (Inr (setProp [(''type'', JStr ''user'')]
                (column_name \<lparr>column_name = ''type'', udt_name = ''type_enum''\<rparr>)
                (JStr ([''INDIVIDUAL'', ''USERS''] ! i))),
         resetStats\<lparr>enumTransformations := enumTransformations resetStats + 1\<rparr>))"
proof -
  let ?cat = "[''INDIVIDUAL'', ''USERS'']"
  let ?col = "\<lparr>column_name = ''type'', udt_name = ''type_enum''\<rparr>"
  let ?map = "[''type_enum'' \<mapsto> ?cat]"
  let ?row = "[(''type'', JStr ''user'')]"
  have h1: "[] \<notin> set ?cat" by simp
  have h2: "?map (udt_name ?col) = Some ?cat" by simp
  have h3: "getProp ?row (column_name ?col) = JStr ''user''" by (simp add: getProp_def)
  have h4: "''user'' \<notin> set ?cat" by simp
  have h5: "\<not> (\<exists>l\<in>set ?cat. caseInsensitiveMatch ''user'' l)"
    by code_simp
  have h6: "\<exists>l\<in>set ?cat. substringMatch ''user'' l \<or> synonymMatch ''user'' l"
    by code_simp
  note T = enum_cascade_order[where enumMap = ?map and col = ?col and st = resetStats,
      OF h1 h2 h3]
  have R: "\<exists>i<length ?cat.
      (substringMatch ''user'' (?cat ! i) \<or> synonymMatch ''user'' (?cat ! i)) \<and>
      (\<forall>j<i. \<not> (substringMatch ''user'' (?cat ! j) \<or> synonymMatch ''user'' (?cat ! j))) \<and>
      transformEnumValue (JStr ''user'') ?cat resetStats = (Inr (JStr (?cat ! i)), resetStats) \<and>
      transformColumn ?map ?col ?row resetStats =
        (Inr (setProp ?row (column_name ?col) (JStr (?cat ! i))),
         resetStats\<lparr>enumTransformations := enumTransformations resetStats + 1\<rparr>)"
    by (rule mp[OF T[THEN conjunct2, THEN conjunct2, THEN conjunct1]]) (intro conjI h4 h5 h6)
  show ?thesis by (intro conjI h1 h2 h3 h4 h5 h6 R)
qed
section \<open>Loader: properties\<close>

text \<open>
  The per-row fallback adds to \<open>rowsInserted\<close> the row counts of the single-row
  statements that succeeded and to \<open>rowErrors\<close> an entry for each row whose statement
  raised, and nothing else. \<open>insertBatch\<close> raises when no column is valid and returns
  otherwise: the sanity check on the number of values never fails.
\<close>

lemma length_singleRowResults:
  "length (singleRowResults sfy conn q cols rs w) = length rs"
proof (induction rs arbitrary: w)
  case Nil
  then show ?case by simp
next
  case (Cons row rs)
  then show ?case
    by (cases "conn w q (map (prepareValue sfy row) cols)") simp
qed

lemma succeededRowCounts_simps:
  "succeededRowCounts [] = []"
  "succeededRowCounts (Inl e # outs) = succeededRowCounts outs"
  "succeededRowCounts (Inr res # outs) = rowCountOr0 res # succeededRowCounts outs"
  by (simp_all add: succeededRowCounts_def List.map_filter_simps)

lemma rowErrorsOf_simps:
  "rowErrorsOf r [] outs = []"
  "rowErrorsOf r (row # rs) (Inl e # outs) =
     \<lparr>re_rowIndex = r, re_error = message e, re_sampleRow = row\<rparr> # rowErrorsOf (r + 1) rs outs"
  "rowErrorsOf r (row # rs) (Inr res # outs) = rowErrorsOf (r + 1) rs outs"
proof -
  have u: "[r ..< r + length (row # rs)] = r # [r + 1 ..< r + 1 + length rs]"
    by (simp add: upt_conv_Cons del: upt_Suc)
  show "rowErrorsOf r [] outs = []"
    by (simp add: rowErrorsOf_def List.map_filter_simps)
  show "rowErrorsOf r (row # rs) (Inl e # outs) =
     \<lparr>re_rowIndex = r, re_error = message e, re_sampleRow = row\<rparr> # rowErrorsOf (r + 1) rs outs"
    unfolding rowErrorsOf_def u by (simp add: List.map_filter_simps)
  show "rowErrorsOf r (row # rs) (Inr res # outs) = rowErrorsOf (r + 1) rs outs"
    unfolding rowErrorsOf_def u by (simp add: List.map_filter_simps)
qed

lemma fallbackRows_trace:
  "fst (fallbackRows sfy conn q cols rs r (n, errs) w) =
     (n + sum_list (succeededRowCounts (singleRowResults sfy conn q cols rs w)),
      errs @ rowErrorsOf r rs (singleRowResults sfy conn q cols rs w))"
proof (induction rs arbitrary: r n errs w)
  case Nil
  then show ?case by (simp add: succeededRowCounts_simps rowErrorsOf_simps)
next
  case (Cons row rs)
  show ?case
  proof (cases "conn w q (map (prepareValue sfy row) cols)")
    case (Pair res w')
    show ?thesis
    proof (cases res)
      case (Inl e)
      show ?thesis
        using Pair Inl
          Cons.IH[of "r + 1" n "errs @ [\<lparr>re_rowIndex = r, re_error = message e, re_sampleRow = row\<rparr>]" w']
        by (simp add: Let_def succeededRowCounts_simps rowErrorsOf_simps)
    next
      case (Inr ok)
      show ?thesis
        using Pair Inr Cons.IH[of "r + 1" "n + rowCountOr0 ok" errs w']
        by (simp add: Let_def succeededRowCounts_simps rowErrorsOf_simps)
    qed
  qed
qed

lemma rows_accounted:
  assumes "length outs = length rs"
  shows "length (succeededRowCounts outs) + length (rowErrorsOf r rs outs) = length rs"
  using assms
proof (induction rs arbitrary: r outs)
  case Nil
  then show ?case by (simp add: succeededRowCounts_simps rowErrorsOf_simps)
next
  case (Cons row rs)
  then obtain out outs' where o: "outs = out # outs'" "length outs' = length rs"
    by (cases outs) auto
  show ?case using Cons.IH[OF o(2), of "r + 1"] o(1)
    by (cases out) (simp_all add: succeededRowCounts_simps rowErrorsOf_simps)
qed

lemma sum_list_all_one:
  assumes "\<forall>n\<in>set ns. n = (1::nat)"
  shows "sum_list ns = length ns"
  using assms by (induction ns) auto

lemma succeededRowCounts_set:
  "n \<in> set (succeededRowCounts outs) \<Longrightarrow> \<exists>res. Inr res \<in> set outs \<and> n = rowCountOr0 res"
proof (induction outs)
  case Nil
  then show ?case by (simp add: succeededRowCounts_simps)
next
  case (Cons out outs)
  then show ?case by (cases out) (auto simp: succeededRowCounts_simps)
qed

lemma length_batchValues:
  "length (batchValues sfy cols batch) = length batch * length cols"
  by (induction batch) (simp_all add: batchValues_def)

lemma insertBatch_no_columns:
  assumes "batch \<noteq> []" "validColumns columnNames batch = []"
  shows "insertBatch sfy conn tName batch columnNames onConfl w =
           (Inl (Error (''No valid columns found for table '' @ tName)), w)"
  using assms by (simp add: insertBatch_def Let_def)

lemma insertBatch_returns:
  assumes "validColumns columnNames batch \<noteq> []"
  shows "\<exists>br w'. insertBatch sfy conn tName batch columnNames onConfl w = (Inr br, w')"
proof (cases "batch = []")
  case True
  then show ?thesis by (simp add: insertBatch_def)
next
  case False
  obtain res w1 where q: "conn w (insertQuery tName (validColumns columnNames batch) (length batch) onConfl)
      (batchValues sfy (validColumns columnNames batch) batch) = (res, w1)"
    by (cases "conn w (insertQuery tName (validColumns columnNames batch) (length batch) onConfl)
      (batchValues sfy (validColumns columnNames batch) batch)") auto
  show ?thesis using False assms q
    by (cases res) (simp_all add: insertBatch_def Let_def length_batchValues)
qed

text \<open>
  Claim C2, as amended. For every batch whose multi-row insert raises, the per-row
  fallback returns normally (the error of a row is caught and recorded, never raised):
  one single-row statement is sent for each row, \<open>insertedRows\<close> is the sum of the row
  counts of the statements that succeeded, and \<open>rowErrors\<close> holds exactly one entry, with
  its index, for each row whose statement raised, so at most one for each row. When every
  single-row statement that succeeds reports \<open>rowCount = 1\<close>,
  \<open>insertedRows + length rowErrors = length batch\<close>: every row is accounted for as
  inserted or as a per-row error.
\<close>

theorem fallback_accounts_for_every_row:
  assumes "batch \<noteq> []" and "validColumns columnNames batch \<noteq> []"
    and "conn w (insertQuery tName (validColumns columnNames batch) (length batch) onConfl)
           (batchValues sfy (validColumns columnNames batch) batch) = (Inl err, w1)"
    and "outs = singleRowResults sfy conn
           (insertQuery tName (validColumns columnNames batch) 1 onConfl)
           (validColumns columnNames batch) batch w1"
  shows "(\<exists>w'. insertBatch sfy conn tName batch columnNames onConfl w =
            (Inr \<lparr>insertedRows = sum_list (succeededRowCounts outs),
                  rowErrors = Some (rowErrorsOf 0 batch outs)\<rparr>, w')) \<and>
         length outs = length batch \<and>
         length (succeededRowCounts outs) + length (rowErrorsOf 0 batch outs) = length batch \<and>
         length (rowErrorsOf 0 batch outs) \<le> length batch \<and>
         ((\<forall>res. Inr res \<in> set outs \<longrightarrow> rowCount res = Some 1) \<longrightarrow>
            sum_list (succeededRowCounts outs) + length (rowErrorsOf 0 batch outs) = length batch)"
proof -
  define fb where "fb = fallbackRows sfy conn
      (insertQuery tName (validColumns columnNames batch) 1 onConfl)
      (validColumns columnNames batch) batch 0 (0, []) w1"
  have res: "insertBatch sfy conn tName batch columnNames onConfl w =
      (Inr \<lparr>insertedRows = fst (fst fb), rowErrors = Some (snd (fst fb))\<rparr>, snd fb)"
    using assms(1,2,3) by (simp add: insertBatch_def Let_def length_batchValues fb_def)
  have tr: "fst fb = (sum_list (succeededRowCounts outs), rowErrorsOf 0 batch outs)"
    using fallbackRows_trace[of sfy conn _ _ batch 0 0 "[]" w1]
    by (simp add: fb_def assms(4))
  have c1: "\<exists>w'. insertBatch sfy conn tName batch columnNames onConfl w =
            (Inr \<lparr>insertedRows = sum_list (succeededRowCounts outs),
                  rowErrors = Some (rowErrorsOf 0 batch outs)\<rparr>, w')"
    using res tr by simp
  have c2: "length outs = length batch"
    unfolding assms(4) by (rule length_singleRowResults)
  have c3: "length (succeededRowCounts outs) + length (rowErrorsOf 0 batch outs) = length batch"
    by (rule rows_accounted[OF c2])
  have c4: "length (rowErrorsOf 0 batch outs) \<le> length batch"
    using c3 by simp
  have c5: "sum_list (succeededRowCounts outs) + length (rowErrorsOf 0 batch outs) = length batch"
    if one: "\<forall>res. Inr res \<in> set outs \<longrightarrow> rowCount res = Some 1"
  proof -
    have "\<forall>n\<in>set (succeededRowCounts outs). n = 1"
    proof
      fix n assume "n \<in> set (succeededRowCounts outs)"
      from succeededRowCounts_set[OF this] obtain res where
        r: "Inr res \<in> set outs" "n = rowCountOr0 res" by blast
      from one r(1) have "rowCount res = Some 1" by blast
      then show "n = 1" using r(2) by (simp add: rowCountOr0_def)
    qed
    from sum_list_all_one[OF this] c3 show ?thesis by simp
  qed
  from c1 c2 c3 c4 c5 show ?thesis by (intro conjI impI)
qed

text \<open>
  The theorem on the batch-fallback scenario: three rows, the middle one violating a check
  constraint. Rows \<open>0\<close> and \<open>2\<close> are inserted, with one row each, and row \<open>1\<close> is the
  per-row error.
\<close>

theorem fallback_accounts_for_every_row_witness:
  "[[(''id'', JNum 1), (''name'', JStr ''A'')], [(''id'', JNum 2), (''name'', JStr ''bad'')],
    [(''id'', JNum 3), (''name'', JStr ''C'')]] \<noteq> [] \<and>
   validColumns [JStr ''id'', JStr ''name'']
     [[(''id'', JNum 1), (''name'', JStr ''A'')], [(''id'', JNum 2), (''name'', JStr ''bad'')],
      [(''id'', JNum 3), (''name'', JStr ''C'')]] \<noteq> [] \<and>
   singleRowResults (\<lambda>_. []) checkConn
     (insertQuery ''items'' [''id'', ''name''] 1 ''error'') [''id'', ''name'']
     [[(''id'', JNum 1), (''name'', JStr ''A'')], [(''id'', JNum 2), (''name'', JStr ''bad'')],
      [(''id'', JNum 3), (''name'', JStr ''C'')]] () =
     [Inr \<lparr>rowCount = Some 1, rows = []\<rparr>, Inl (Error ''new row violates check constraint''),
      Inr \<lparr>rowCount = Some 1, rows = []\<rparr>] \<and>
   insertBatch (\<lambda>_. []) checkConn ''items''
     [[(''id'', JNum 1), (''name'', JStr ''A'')], [(''id'', JNum 2), (''name'', JStr ''bad'')],
      [(''id'', JNum 3), (''name'', JStr ''C'')]]
     [JStr ''id'', JStr ''name''] ''error'' () =
     (Inr \<lparr>insertedRows = 2,
           rowErrors = Some [\<lparr>re_rowIndex = 1, re_error = ''new row violates check constraint'',
                              re_sampleRow = [(''id'', JNum 2), (''name'', JStr ''bad'')]\<rparr>]\<rparr>, ()) \<and>
   (2::nat) + length [\<lparr>re_rowIndex = 1, re_error = ''new row violates check constraint'',
                       re_sampleRow = [(''id'', JNum 2), (''name'', JStr ''bad'')]\<rparr>] = 3"
proof -
  let ?batch = "[[(''id'', JNum 1), (''name'', JStr ''A'')], [(''id'', JNum 2), (''name'', JStr ''bad'')],
    [(''id'', JNum 3), (''name'', JStr ''C'')]]"
  let ?outs = "[Inr \<lparr>rowCount = Some 1, rows = []\<rparr>, Inl (Error ''new row violates check constraint''),
      Inr \<lparr>rowCount = Some 1, rows = []\<rparr>] :: (js_error + query_result) list"
  have h1: "?batch \<noteq> []" by simp
  have vc: "validColumns [JStr ''id'', JStr ''name''] ?batch = [''id'', ''name'']" by code_simp
  have h2: "validColumns [JStr ''id'', JStr ''name''] ?batch \<noteq> []" unfolding vc by simp
  have h3: "checkConn () (insertQuery ''items'' (validColumns [JStr ''id'', JStr ''name''] ?batch)
              (length ?batch) ''error'')
              (batchValues (\<lambda>_. []) (validColumns [JStr ''id'', JStr ''name''] ?batch) ?batch) =
            (Inl (Error ''new row violates check constraint''), ())"
    by code_simp
  have tr: "singleRowResults (\<lambda>_. []) checkConn
              (insertQuery ''items'' [''id'', ''name''] 1 ''error'') [''id'', ''name''] ?batch () = ?outs"
    by code_simp
  have h4: "?outs = singleRowResults (\<lambda>_. []) checkConn
              (insertQuery ''items'' (validColumns [JStr ''id'', JStr ''name''] ?batch) 1 ''error'')
              (validColumns [JStr ''id'', JStr ''name''] ?batch) ?batch ()"
    unfolding vc tr ..
  have h5: "\<forall>res. Inr res \<in> set ?outs \<longrightarrow> rowCount res = Some 1" by auto
  have s: "sum_list (succeededRowCounts ?outs) = 2" by code_simp
  have e: "rowErrorsOf 0 ?batch ?outs =
      [\<lparr>re_rowIndex = 1, re_error = ''new row violates check constraint'',
        re_sampleRow = [(''id'', JNum 2), (''name'', JStr ''bad'')]\<rparr>]"
    by code_simp
  note T = fallback_accounts_for_every_row[OF h1 h2 h3 h4]
  from T[THEN conjunct1] have r: "insertBatch (\<lambda>_. []) checkConn ''items'' ?batch
     [JStr ''id'', JStr ''name''] ''error'' () =
     (Inr \<lparr>insertedRows = 2,
           rowErrors = Some [\<lparr>re_rowIndex = 1, re_error = ''new row violates check constraint'',
                              re_sampleRow = [(''id'', JNum 2), (''name'', JStr ''bad'')]\<rparr>]\<rparr>, ())"
    unfolding s e by simp
  from T[THEN conjunct2, THEN conjunct2, THEN conjunct2, THEN conjunct2] h5
  have a: "sum_list (succeededRowCounts ?outs) + length (rowErrorsOf 0 ?batch ?outs) = length ?batch"
    by blast
  have a': "(2::nat) + length [\<lparr>re_rowIndex = 1, re_error = ''new row violates check constraint'',
                       re_sampleRow = [(''id'', JNum 2), (''name'', JStr ''bad'')]\<rparr>] = 3"
    using a unfolding s e by simp
  show ?thesis by (intro conjI h1 h2 tr r a')
qed

text \<open>
  Claim C2 as stated fails under the conflict policy \<open>skip\<close>, whose suffix the fallback
  repeats: a row that conflicts is skipped by the target, its statement succeeds with
  \<open>rowCount = 0\<close>, and the row is counted neither as inserted nor as an error. Here row
  \<open>1\<close> conflicts and row \<open>2\<close> violates a constraint: \<open>0 + 1 \<noteq> 2\<close>.
\<close>

theorem fallback_skip_counterexample:
  "insertBatch (\<lambda>_. []) skipConn ''items'' [[(''id'', JNum 1)], [(''id'', JNum 2)]] [JStr ''id'']
     ''skip'' () =
     (Inr \<lparr>insertedRows = 0,
           rowErrors = Some [\<lparr>re_rowIndex = 1, re_error = ''new row violates check constraint'',
                              re_sampleRow = [(''id'', JNum 2)]\<rparr>]\<rparr>, ()) \<and>
   (0::nat) + length [\<lparr>re_rowIndex = 1, re_error = ''new row violates check constraint'',
                       re_sampleRow = [(''id'', JNum 2)]\<rparr>] \<noteq>
     length [[(''id'', JNum 1)], [(''id'', JNum 2)]]"
  by code_simp
text \<open>
  The loop over the batches, for a positive batch size and a table whose name does not put
  \<open>does not exist\<close> or \<open>permission\<close> into the message: it returns normally, keeps the
  errors it was given, holds an entry for every batch without a valid column, and adds no
  entry with another message.
\<close>

lemma insertLoop_returns:
  assumes "0 < bSize"
    and "\<not> str_includes (''No valid columns found for table '' @ tName) ''does not exist''"
    and "\<not> str_includes (''No valid columns found for table '' @ tName) ''permission''"
  shows "\<exists>tot cnt' errs' w'.
           insertLoop sfy conn tName data columnNames onConfl bSize i (tot0, cnt, errs) w =
             Some (Inr (tot, cnt', errs'), w') \<and>
           set errs \<subseteq> set errs' \<and>
           (\<forall>k. i + k * bSize < length data \<and>
                validColumns columnNames (take bSize (drop (i + k * bSize) data)) = [] \<longrightarrow>
                \<lparr>be_batchNumber = cnt + k + 1,
                 be_batchSize = length (take bSize (drop (i + k * bSize) data)),
                 be_error = ''No valid columns found for table '' @ tName\<rparr> \<in> set errs') \<and>
           ((\<forall>e\<in>set errs. be_error e = ''No valid columns found for table '' @ tName) \<longrightarrow>
            (\<forall>e\<in>set errs'. be_error e = ''No valid columns found for table '' @ tName))"
proof (induction "length data - i" arbitrary: i tot0 cnt errs w rule: less_induct)
  case less
  let ?msg = "''No valid columns found for table '' @ tName"
  show ?case
  proof (cases "i < length data")
    case False
    then show ?thesis
      by (subst insertLoop.simps) auto
  next
    case True
    let ?batch = "take bSize (drop i data)"
    have nonempty: "?batch \<noteq> []" using True assms(1) by simp
    have smaller: "length data - (i + bSize) < length data - i"
      using True assms(1) by simp
    show ?thesis
    proof (cases "validColumns columnNames ?batch = []")
      case True
      note empty = this
      let ?entry = "\<lparr>be_batchNumber = cnt + 1, be_batchSize = length ?batch, be_error = ?msg\<rparr>"
      have step: "insertLoop sfy conn tName data columnNames onConfl bSize i (tot0, cnt, errs) w =
            insertLoop sfy conn tName data columnNames onConfl bSize (i + bSize)
              (tot0, cnt + 1, errs @ [?entry]) w"
        using \<open>i < length data\<close> assms(2,3)
        by (subst insertLoop.simps)
           (simp add: insertBatch_no_columns[OF nonempty empty] Let_def Error_def)
      from less.hyps[OF smaller, of tot0 "cnt + 1" "errs @ [?entry]" w]
      obtain tot cnt' errs' w' where IH:
        "insertLoop sfy conn tName data columnNames onConfl bSize (i + bSize)
              (tot0, cnt + 1, errs @ [?entry]) w = Some (Inr (tot, cnt', errs'), w')"
        "set (errs @ [?entry]) \<subseteq> set errs'"
        "\<forall>k. i + bSize + k * bSize < length data \<and>
                validColumns columnNames (take bSize (drop (i + bSize + k * bSize) data)) = [] \<longrightarrow>
                \<lparr>be_batchNumber = cnt + 1 + k + 1,
                 be_batchSize = length (take bSize (drop (i + bSize + k * bSize) data)),
                 be_error = ?msg\<rparr> \<in> set errs'"
        "(\<forall>e\<in>set (errs @ [?entry]). be_error e = ?msg) \<longrightarrow>
           (\<forall>e\<in>set errs'. be_error e = ?msg)"
        by blast
      have msgs: "(\<forall>e\<in>set errs. be_error e = ?msg) \<longrightarrow> (\<forall>e\<in>set errs'. be_error e = ?msg)"
        using IH(4) by simp
      have all: "\<lparr>be_batchNumber = cnt + k + 1,
                 be_batchSize = length (take bSize (drop (i + k * bSize) data)),
                 be_error = ?msg\<rparr> \<in> set errs'"
        if k: "i + k * bSize < length data"
          "validColumns columnNames (take bSize (drop (i + k * bSize) data)) = []" for k
      proof (cases k)
        case 0
        then show ?thesis using IH(2) by auto
      next
        case (Suc k')
        have eq: "i + k * bSize = i + bSize + k' * bSize" using Suc by simp
        have num: "cnt + k + 1 = cnt + 1 + k' + 1" using Suc by simp
        have "i + bSize + k' * bSize < length data"
          "validColumns columnNames (take bSize (drop (i + bSize + k' * bSize) data)) = []"
          using k unfolding eq by blast+
        with IH(3) show ?thesis unfolding eq num by blast
      qed
      have sub: "set errs \<subseteq> set errs'" using IH(2) by auto
      show ?thesis unfolding step
        by (intro exI[of _ tot] exI[of _ cnt'] exI[of _ errs'] exI[of _ w'] conjI IH(1) sub msgs)
           (use all in blast)
    next
      case False
      from insertBatch_returns[OF False, of sfy conn tName onConfl w]
      obtain br w1 where br: "insertBatch sfy conn tName ?batch columnNames onConfl w = (Inr br, w1)"
        by blast
      have step: "insertLoop sfy conn tName data columnNames onConfl bSize i (tot0, cnt, errs) w =
            insertLoop sfy conn tName data columnNames onConfl bSize (i + bSize)
              (tot0 + insertedRows br, cnt + 1, errs) w1"
        using \<open>i < length data\<close> by (subst insertLoop.simps) (simp add: br Let_def)
      from less.hyps[OF smaller, of "tot0 + insertedRows br" "cnt + 1" errs w1]
      obtain tot cnt' errs' w' where IH:
        "insertLoop sfy conn tName data columnNames onConfl bSize (i + bSize)
              (tot0 + insertedRows br, cnt + 1, errs) w1 = Some (Inr (tot, cnt', errs'), w')"
        "set errs \<subseteq> set errs'"
        "\<forall>k. i + bSize + k * bSize < length data \<and>
                validColumns columnNames (take bSize (drop (i + bSize + k * bSize) data)) = [] \<longrightarrow>
                \<lparr>be_batchNumber = cnt + 1 + k + 1,
                 be_batchSize = length (take bSize (drop (i + bSize + k * bSize) data)),
                 be_error = ?msg\<rparr> \<in> set errs'"
        "(\<forall>e\<in>set errs. be_error e = ?msg) \<longrightarrow> (\<forall>e\<in>set errs'. be_error e = ?msg)"
        by blast
      note msgs = IH(4)
      have all: "\<lparr>be_batchNumber = cnt + k + 1,
                 be_batchSize = length (take bSize (drop (i + k * bSize) data)),
                 be_error = ?msg\<rparr> \<in> set errs'"
        if k: "i + k * bSize < length data"
          "validColumns columnNames (take bSize (drop (i + k * bSize) data)) = []" for k
      proof (cases k)
        case 0
        then show ?thesis using k(2) False by simp
      next
        case (Suc k')
        have eq: "i + k * bSize = i + bSize + k' * bSize" using Suc by simp
        have num: "cnt + k + 1 = cnt + 1 + k' + 1" using Suc by simp
        have "i + bSize + k' * bSize < length data"
          "validColumns columnNames (take bSize (drop (i + bSize + k' * bSize) data)) = []"
          using k unfolding eq by blast+
        with IH(3) show ?thesis unfolding eq num by blast
      qed
      have sub: "set errs \<subseteq> set errs'" using IH(2) by auto
      show ?thesis unfolding step
        by (intro exI[of _ tot] exI[of _ cnt'] exI[of _ errs'] exI[of _ w'] conjI IH(1) sub msgs)
           (use all in blast)
    qed
  qed
qed



section \<open>Executor: properties\<close>









section \<open>Loader and executor: the empty effective column set\<close>

text \<open>
  Claim C6, as amended. For a batch of a non-empty row list whose effective column set is
  empty, \<open>insertBatch\<close> raises the schema-mismatch error \<open>No valid columns found for
  table T\<close>, and \<open>insertTableData\<close>, the loader's entry point, catches it: called by an
  initialised service with a positive batch size, once the clearing (when \<open>clearFirst\<close>
  asks for it) and the column lookup have succeeded, it returns normally with
  \<open>success = false\<close> and an \<open>errors\<close> list that holds an entry with the batch's number
  and that message and no entry with another message, and goes on with the next batch.
  (This is for a table whose name does not put \<open>does not exist\<close> or \<open>permission\<close> into
  the message.) A batch with a valid column never makes \<open>insertBatch\<close> raise, whatever
  the connection answers: the error of a statement, and of a row, is caught. The executor
  turns a loader result with \<open>success = false\<close> into a table-level failure:
  \<open>syncSingleTable\<close> raises \<open>Data insertion failed:\<close> followed by the first entry's
  message, and the loop of \<open>performDataSync\<close> records the table in \<open>failedTables\<close>.
\<close>

theorem schema_mismatch_is_reported_not_raised:
  assumes "isInitialized svc" and "data \<noteq> []"
    and "bSize = (case optBatchSize opts of None \<Rightarrow> batchSize svc | Some b \<Rightarrow> b)"
    and "0 < bSize"
    and "(if (case clearFirst opts of None \<Rightarrow> False | Some b \<Rightarrow> b)
          then clearTableData conn svc tName w else (Inr 0, w)) = (Inr cleared, w1)"
    and "getTableColumns conn tName w1 = (Inr columns, w2)"
    and "columnNames = map (\<lambda>col. getProp col ''column_name'') columns"
    and "k * bSize < length data"
    and "validColumns columnNames (take bSize (drop (k * bSize) data)) = []"
    and "\<not> str_includes (''No valid columns found for table '' @ tName) ''does not exist''"
    and "\<not> str_includes (''No valid columns found for table '' @ tName) ''permission''"
  shows "insertBatch sfy conn tName (take bSize (drop (k * bSize) data)) columnNames onConfl w0 =
           (Inl (Error (''No valid columns found for table '' @ tName)), w0) \<and>
         (\<exists>r es w'.
            insertTableData sfy conn svc tName data opts w = Some (Inr r, w') \<and>
            \<not> success r \<and> errors r = Some es \<and>
            \<lparr>be_batchNumber = k + 1,
             be_batchSize = length (take bSize (drop (k * bSize) data)),
             be_error = ''No valid columns found for table '' @ tName\<rparr> \<in> set es \<and>
            (\<forall>e\<in>set es. be_error e = ''No valid columns found for table '' @ tName)) \<and>
         (validColumns columnNames b \<noteq> [] \<longrightarrow>
            (\<exists>br w'. insertBatch sfy conn tName b columnNames onConfl w0 = (Inr br, w'))) \<and>
         (extractAllTableData env (world sys) (tid tbl) (tname tbl) = (Inr ex, wa) \<and>
          ex_success ex \<and> ex_data ex \<noteq> [] \<and>
          transformTableData (getEnumColumns env) (tname tbl) (ex_data ex) enumMap
            (transformationStatsOf sys, wa) = (Inr td, st2, wb) \<and>
          insertTableData (stringify env) (query env) (dataService sys) (tname tbl) td
            (syncInsertOptions (syncConfig sys)) wb = Some (Inr res, wc) \<and>
          \<not> success res \<and> errors res = Some (e # rest) \<and>
          map_of tableCounts (tname tbl) = Some n \<and> n \<noteq> 0 \<longrightarrow>
            syncSingleTable env tbl enumMap sys =
              Some (Inl (Error (''Data insertion failed: '' @ be_error e)),
                    sys\<lparr>world := wc, transformationStatsOf := st2\<rparr>) \<and>
            syncTable env enumMap tableCounts tbl sys =
              Some (sys\<lparr>world := wc, transformationStatsOf := st2,
                       syncStats := (syncStats sys)
                         \<lparr>failedTables := failedTables (syncStats sys) @
                            [\<lparr>ft_name = tname tbl,
                              ft_error = ''Data insertion failed: '' @ be_error e,
                              ft_details = ''Unknown error''\<rparr>]\<rparr>\<rparr>))"
proof -
  let ?msg = "''No valid columns found for table '' @ tName"
  have "take bSize (drop (k * bSize) data) \<noteq> []" using assms(4,8) by simp
  then have c1: "insertBatch sfy conn tName (take bSize (drop (k * bSize) data)) columnNames onConfl w0 =
           (Inl (Error ?msg), w0)"
    using assms(9) by (rule insertBatch_no_columns)
  define oc where "oc = (case onConflict opts of None \<Rightarrow> ''error'' | Some c \<Rightarrow> c)"
  from insertLoop_returns[OF assms(4,10,11), of sfy conn data columnNames oc 0 0 0 "[]" w2]
  obtain tot cnt' errs' w' where L:
    "insertLoop sfy conn tName data columnNames oc bSize 0 (0, 0, []) w2 =
       Some (Inr (tot, cnt', errs'), w')"
    "\<forall>k. 0 + k * bSize < length data \<and>
         validColumns columnNames (take bSize (drop (0 + k * bSize) data)) = [] \<longrightarrow>
         \<lparr>be_batchNumber = 0 + k + 1,
          be_batchSize = length (take bSize (drop (0 + k * bSize) data)),
          be_error = ?msg\<rparr> \<in> set errs'"
    "(\<forall>e\<in>set ([] :: batch_error list). be_error e = ?msg) \<longrightarrow>
       (\<forall>e\<in>set errs'. be_error e = ?msg)"
    by blast
  have entry: "\<lparr>be_batchNumber = k + 1,
          be_batchSize = length (take bSize (drop (k * bSize) data)),
          be_error = ?msg\<rparr> \<in> set errs'"
    using L(2)[rule_format, of k] assms(8,9) by simp
  then have ne: "errs' \<noteq> []" by auto
  have msgs: "\<forall>e\<in>set errs'. be_error e = ?msg" using L(3) by simp
  have run: "insertTableData sfy conn svc tName data opts w =
          Some (Inr \<lparr>insertedRows = tot, tableName = tName, totalRows = length data,
                     success = (length errs' = 0), batches = cnt', errors = Some errs'\<rparr>, w')"
    using assms(1,2,6) L(1)
    by (simp add: insertTableData_def Let_def assms(5) assms(3)[symmetric] assms(7)[symmetric]
        oc_def[symmetric])
  have c2: "\<exists>r es w'.
            insertTableData sfy conn svc tName data opts w = Some (Inr r, w') \<and>
            \<not> success r \<and> errors r = Some es \<and>
            \<lparr>be_batchNumber = k + 1,
             be_batchSize = length (take bSize (drop (k * bSize) data)),
             be_error = ?msg\<rparr> \<in> set es \<and>
            (\<forall>e\<in>set es. be_error e = ?msg)"
    unfolding run using entry ne msgs by simp
  have c3: "\<exists>br w'. insertBatch sfy conn tName b columnNames onConfl w0 = (Inr br, w')"
    if "validColumns columnNames b \<noteq> []"
    using that by (rule insertBatch_returns)
  have c4: "syncSingleTable env tbl enumMap sys =
              Some (Inl (Error (''Data insertion failed: '' @ be_error e)),
                    sys\<lparr>world := wc, transformationStatsOf := st2\<rparr>) \<and>
            syncTable env enumMap tableCounts tbl sys =
              Some (sys\<lparr>world := wc, transformationStatsOf := st2,
                       syncStats := (syncStats sys)
                         \<lparr>failedTables := failedTables (syncStats sys) @
                            [\<lparr>ft_name = tname tbl,
                              ft_error = ''Data insertion failed: '' @ be_error e,
                              ft_details = ''Unknown error''\<rparr>]\<rparr>\<rparr>)"
    if a: "extractAllTableData env (world sys) (tid tbl) (tname tbl) = (Inr ex, wa) \<and>
          ex_success ex \<and> ex_data ex \<noteq> [] \<and>
          transformTableData (getEnumColumns env) (tname tbl) (ex_data ex) enumMap
            (transformationStatsOf sys, wa) = (Inr td, st2, wb) \<and>
          insertTableData (stringify env) (query env) (dataService sys) (tname tbl) td
            (syncInsertOptions (syncConfig sys)) wb = Some (Inr res, wc) \<and>
          \<not> success res \<and> errors res = Some (e # rest) \<and>
          map_of tableCounts (tname tbl) = Some n \<and> n \<noteq> 0"
  proof -
    from a have f:
      "extractAllTableData env (world sys) (tid tbl) (tname tbl) = (Inr ex, wa)"
      "ex_success ex" "ex_data ex \<noteq> []"
      "transformTableData (getEnumColumns env) (tname tbl) (ex_data ex) enumMap
         (transformationStatsOf sys, wa) = (Inr td, st2, wb)"
      "insertTableData (stringify env) (query env) (dataService sys) (tname tbl) td
         (syncInsertOptions (syncConfig sys)) wb = Some (Inr res, wc)"
      "\<not> success res" "errors res = Some (e # rest)"
      and cnt: "map_of tableCounts (tname tbl) = Some n" "n \<noteq> 0"
      by blast+
    have one: "syncSingleTable env tbl enumMap sys =
              Some (Inl (Error (''Data insertion failed: '' @ be_error e)),
                    sys\<lparr>world := wc, transformationStatsOf := st2\<rparr>)"
      using f by (simp add: syncSingleTable_def Let_def)
    have two: "syncTable env enumMap tableCounts tbl sys =
              Some (sys\<lparr>world := wc, transformationStatsOf := st2,
                       syncStats := (syncStats sys)
                         \<lparr>failedTables := failedTables (syncStats sys) @
                            [\<lparr>ft_name = tname tbl,
                              ft_error = ''Data insertion failed: '' @ be_error e,
                              ft_details = ''Unknown error''\<rparr>]\<rparr>\<rparr>)"
      using cnt unfolding syncTable_def one
      by (simp add: readCount_def Error_def orElse_def)
    from one two show ?thesis ..
  qed
  from c1 c2 c3 c4[THEN conjunct1] c4[THEN conjunct2] show ?thesis
    by (intro conjI impI)
qed

text \<open>
  The theorem on three rows in batches of two, the last row sharing no key with the
  table's only column: the loader reports the second batch, and the executor, run on the
  same rows, fails the table.
\<close>

theorem schema_mismatch_is_reported_not_raised_witness:
  "isInitialized \<lparr>isInitialized = True, batchSize = 2\<rparr> \<and>
   getTableColumns idTable ''users'' () = (Inr [[(''column_name'', JStr ''id'')]], ()) \<and>
   validColumns [JStr ''id''] (take 2 (drop (1 * 2) mismatchedRows)) = [] \<and>
   (\<exists>r es w'.
      insertTableData (\<lambda>_. []) idTable \<lparr>isInitialized = True, batchSize = 2\<rparr> ''users''
        mismatchedRows \<lparr>clearFirst = None, onConflict = None, optBatchSize = None\<rparr> () =
        Some (Inr r, w') \<and>
      \<not> success r \<and> errors r = Some es \<and>
      \<lparr>be_batchNumber = 2, be_batchSize = 1,
       be_error = ''No valid columns found for table users''\<rparr> \<in> set es) \<and>
   insertTableData (stringify (exampleServices idTable [usersTable] exampleCounts mismatchedExtract))
     (query (exampleServices idTable [usersTable] exampleCounts mismatchedExtract))
     (dataService (connectedSys defaultConfig)) (tname usersTable) mismatchedRows
     (syncInsertOptions (syncConfig (connectedSys defaultConfig))) () =
     Some (Inr \<lparr>insertedRows = 2, tableName = ''users'', totalRows = 3, success = False,
                batches = 2,
                errors = Some [\<lparr>be_batchNumber = 2, be_batchSize = 1,
                                 be_error = ''No valid columns found for table users''\<rparr>]\<rparr>, ()) \<and>
   syncSingleTable (exampleServices idTable [usersTable] exampleCounts mismatchedExtract)
     usersTable Map.empty (connectedSys defaultConfig) =
     Some (Inl (Error ''Data insertion failed: No valid columns found for table users''),
           (connectedSys defaultConfig)\<lparr>world := (), transformationStatsOf := resetStats\<rparr>)"
proof -
  let ?svc = "\<lparr>isInitialized = True, batchSize = 2\<rparr>"
  let ?opts = "\<lparr>clearFirst = None, onConflict = None, optBatchSize = None\<rparr>"
  let ?env = "exampleServices idTable [usersTable] exampleCounts mismatchedExtract"
  let ?sys = "connectedSys defaultConfig"
  let ?res = "\<lparr>insertedRows = 2, tableName = ''users'', totalRows = 3, success = False,
                batches = 2,
                errors = Some [\<lparr>be_batchNumber = 2, be_batchSize = 1,
                                 be_error = ''No valid columns found for table users''\<rparr>]\<rparr>"
  have h1: "isInitialized ?svc" by simp
  have h2: "mismatchedRows \<noteq> []" by (simp add: mismatchedRows_def)
  have h3: "(2::nat) = (case optBatchSize ?opts of None \<Rightarrow> batchSize ?svc | Some b \<Rightarrow> b)" by simp
  have h4: "0 < (2::nat)" by simp
  have h5: "(if (case clearFirst ?opts of None \<Rightarrow> False | Some b \<Rightarrow> b)
          then clearTableData idTable ?svc ''users'' () else (Inr 0, ())) = (Inr 0, ())"
    by simp
  have h6: "getTableColumns idTable ''users'' () = (Inr [[(''column_name'', JStr ''id'')]], ())"
    by (simp add: getTableColumns_def idTable_def)
  have h7: "[JStr ''id''] = map (\<lambda>col. getProp col ''column_name'') [[(''column_name'', JStr ''id'')]]"
    by (simp add: getProp_def)
  have h8: "1 * 2 < length mismatchedRows" by (simp add: mismatchedRows_def)
  have h9: "validColumns [JStr ''id''] (take 2 (drop (1 * 2) mismatchedRows)) = []" by code_simp
  have h10: "\<not> str_includes (''No valid columns found for table '' @ ''users'') ''does not exist''"
    by code_simp
  have h11: "\<not> str_includes (''No valid columns found for table '' @ ''users'') ''permission''"
    by code_simp
  have len: "length (take 2 (drop (1 * 2) mismatchedRows)) = 1" by (simp add: mismatchedRows_def)
  have e1: "extractAllTableData ?env (world ?sys) (tid usersTable) (tname usersTable) =
              (Inr (mismatchedExtract 1), ())"
    by (simp add: exampleServices_def usersTable_def connectedSys_def initialSys_def)
  have e2: "ex_success (mismatchedExtract 1)" by (simp add: mismatchedExtract_def)
  have e3: "ex_data (mismatchedExtract 1) \<noteq> []"
    by (simp add: mismatchedExtract_def mismatchedRows_def)
  have e4: "transformTableData (getEnumColumns ?env) (tname usersTable)
              (ex_data (mismatchedExtract 1)) Map.empty (transformationStatsOf ?sys, ()) =
            (Inr mismatchedRows, resetStats, ())"
    by (simp add: transformTableData_def exampleServices_def mismatchedExtract_def
        mismatchedRows_def connectedSys_def initialSys_def)
  have e5: "insertTableData (stringify ?env) (query ?env) (dataService ?sys) (tname usersTable)
              mismatchedRows (syncInsertOptions (syncConfig ?sys)) () = Some (Inr ?res, ())"
    by code_simp
  have e6: "\<not> success ?res" by simp
  have e7: "errors ?res = Some (\<lparr>be_batchNumber = 2, be_batchSize = 1,
                                 be_error = ''No valid columns found for table users''\<rparr> # [])"
    by simp
  have e8: "map_of exampleTableCounts (tname usersTable) = Some 2"
    by (simp add: exampleTableCounts_def usersTable_def)
  have e9: "(2::nat) \<noteq> 0" by simp
  note T = schema_mismatch_is_reported_not_raised[OF h1 h2 h3 h4 h5 h6 h7 h8 h9 h10 h11,
      where sfy = "\<lambda>_. []" and onConfl = "''error''" and ?w0.0 = "()"
        and env = ?env and sys = ?sys and tbl = usersTable and enumMap = Map.empty
        and ex = "mismatchedExtract 1" and wa = "()" and td = mismatchedRows
        and ?st2.0 = resetStats and wb = "()" and res = ?res and wc = "()"
        and e = "\<lparr>be_batchNumber = 2, be_batchSize = 1,
                   be_error = ''No valid columns found for table users''\<rparr>"
        and rest = "[]" and tableCounts = exampleTableCounts and n = 2]
  have two: "\<exists>r es w'.
      insertTableData (\<lambda>_. []) idTable ?svc ''users'' mismatchedRows ?opts () = Some (Inr r, w') \<and>
      \<not> success r \<and> errors r = Some es \<and>
      \<lparr>be_batchNumber = 2, be_batchSize = 1,
       be_error = ''No valid columns found for table users''\<rparr> \<in> set es"
    using T[THEN conjunct2, THEN conjunct1] unfolding len by (auto simp: numeral_2_eq_2)
  have four: "syncSingleTable ?env usersTable Map.empty ?sys =
     Some (Inl (Error ''Data insertion failed: No valid columns found for table users''),
           ?sys\<lparr>world := (), transformationStatsOf := resetStats\<rparr>)"
    using mp[OF T[THEN conjunct2, THEN conjunct2, THEN conjunct2], THEN conjunct1]
      e1 e2 e3 e4 e5 e6 e7 e8 e9
    by simp
  show ?thesis by (intro conjI h1 h6 h9 two e5 four)
qed

text \<open>
  Claim C6 as stated: for one row whose only key is not a column of the table, the loader
  does not raise; it returns a result with the error in \<open>errors\<close>.
\<close>

theorem schema_mismatch_counterexample:
  "validColumns [JStr ''id''] [[(''x'', JNum 1)]] = [] \<and>
   insertTableData (\<lambda>_. []) idTable \<lparr>isInitialized = True, batchSize = 2\<rparr> ''users''
     [[(''x'', JNum 1)]] \<lparr>clearFirst = None, onConflict = None, optBatchSize = None\<rparr> () =
   Some (Inr \<lparr>insertedRows = 0, tableName = ''users'', totalRows = 1, success = False,
              batches = 1,
              errors = Some [\<lparr>be_batchNumber = 1, be_batchSize = 1,
                               be_error = ''No valid columns found for table users''\<rparr>]\<rparr>, ())"
  by code_simp



text \<open>
  Claim C7, as amended. When the executor verifies a table after loading, a loader result
  with \<open>success = true\<close> and \<open>insertedRows\<close> different from the number of extracted rows
  makes \<open>syncSingleTable\<close> raise \<open>Row count mismatch: expected N, inserted M\<close>, and the
  loop records the table in \<open>failedTables\<close>: a table-level failure, under every conflict
  policy (the configuration, and with it \<open>onConflict\<close>, is arbitrary), \<open>skip\<close> included.
\<close>

theorem row_count_mismatch_fails_under_every_policy:
  assumes "extractAllTableData env (world sys) (tid tbl) (tname tbl) = (Inr ex, w1)"
    and "ex_success ex" and "ex_data ex \<noteq> []"
    and "transformTableData (getEnumColumns env) (tname tbl) (ex_data ex) enumMap
           (transformationStatsOf sys, w1) = (Inr td, st2, w2)"
    and "insertTableData (stringify env) (query env) (dataService sys) (tname tbl) td
           (syncInsertOptions (syncConfig sys)) w2 = Some (Inr r, w3)"
    and "success r" and "insertedRows r \<noteq> length (ex_data ex)"
    and "map_of tableCounts (tname tbl) = Some n" and "n \<noteq> 0"
  shows
    "syncSingleTable env tbl enumMap sys =
       Some (Inl (Error (''Row count mismatch: expected '' @ showNat (length (ex_data ex)) @
                         '', inserted '' @ showNat (insertedRows r))),
             sys\<lparr>world := w3, transformationStatsOf := st2\<rparr>) \<and>
     syncTable env enumMap tableCounts tbl sys =
       Some (sys\<lparr>world := w3, transformationStatsOf := st2,
                syncStats := (syncStats sys)
                  \<lparr>failedTables := failedTables (syncStats sys) @
                     [\<lparr>ft_name = tname tbl,
                       ft_error = ''Row count mismatch: expected '' @
                                  showNat (length (ex_data ex)) @ '', inserted '' @
                                  showNat (insertedRows r),
                       ft_details = ''Unknown error''\<rparr>]\<rparr>\<rparr>)"
proof -
  have one: "syncSingleTable env tbl enumMap sys =
       Some (Inl (Error (''Row count mismatch: expected '' @ showNat (length (ex_data ex)) @
                         '', inserted '' @ showNat (insertedRows r))),
             sys\<lparr>world := w3, transformationStatsOf := st2\<rparr>)"
    using assms(1-7) by (simp add: syncSingleTable_def Let_def)
  show ?thesis
    using assms(8,9) unfolding syncTable_def one
    by (simp add: readCount_def Error_def orElse_def)
qed

text \<open>
  The theorem under the conflict policy \<open>skip\<close>: two rows extracted, one of them already
  in the target, so that the loader reports one inserted row.
\<close>

theorem row_count_mismatch_fails_under_every_policy_witness:
  "cfg_onConflict (syncConfig (connectedSys skipConfig)) = ''skip'' \<and>
   insertTableData (\<lambda>_. []) existingRowConn (dataService (connectedSys skipConfig)) ''users''
     usersRows (syncInsertOptions (syncConfig (connectedSys skipConfig))) () =
     Some (Inr \<lparr>insertedRows = 1, tableName = ''users'', totalRows = 2, success = True,
                batches = 1, errors = Some []\<rparr>, ()) \<and>
   syncSingleTable (exampleServices existingRowConn [usersTable] exampleCounts emptyExtract)
     usersTable Map.empty (connectedSys skipConfig) =
     Some (Inl (Error (''Row count mismatch: expected '' @ showNat 2 @ '', inserted '' @ showNat 1)),
           (connectedSys skipConfig)\<lparr>world := (), transformationStatsOf := resetStats\<rparr>)"
proof -
  let ?env = "exampleServices existingRowConn [usersTable] exampleCounts emptyExtract"
  let ?sys = "connectedSys skipConfig"
  let ?r = "\<lparr>insertedRows = 1, tableName = ''users'', totalRows = 2, success = True,
                batches = 1, errors = Some []\<rparr>"
  have h0: "cfg_onConflict (syncConfig ?sys) = ''skip''"
    by (simp add: connectedSys_def initialSys_def skipConfig_def defaultConfig_def)
  have h1: "extractAllTableData ?env (world ?sys) (tid usersTable) (tname usersTable) =
      (Inr \<lparr>ex_success = True, ex_data = usersRows, ex_error = None\<rparr>, ())"
    by (simp add: exampleServices_def emptyExtract_def usersTable_def)
  have h2: "ex_success \<lparr>ex_success = True, ex_data = usersRows, ex_error = None\<rparr>" by simp
  have h3: "ex_data \<lparr>ex_success = True, ex_data = usersRows, ex_error = None\<rparr> \<noteq> []"
    by (simp add: usersRows_def)
  have h4: "transformTableData (getEnumColumns ?env) (tname usersTable)
      (ex_data \<lparr>ex_success = True, ex_data = usersRows, ex_error = None\<rparr>) Map.empty
      (transformationStatsOf ?sys, ()) = (Inr usersRows, resetStats, ())"
    by (simp add: transformTableData_def exampleServices_def usersRows_def connectedSys_def
        initialSys_def)
  have ins: "insertTableData (\<lambda>_. []) existingRowConn (dataService ?sys) ''users''
     usersRows (syncInsertOptions (syncConfig ?sys)) () = Some (Inr ?r, ())"
    by code_simp
  have h5: "insertTableData (stringify ?env) (query ?env) (dataService ?sys) (tname usersTable)
      usersRows (syncInsertOptions (syncConfig ?sys)) () = Some (Inr ?r, ())"
    using ins by (simp add: exampleServices_def usersTable_def)
  have h6: "success ?r" by simp
  have h7: "insertedRows ?r \<noteq> length (ex_data \<lparr>ex_success = True, ex_data = usersRows, ex_error = None\<rparr>)"
    by (simp add: usersRows_def)
  have h8: "map_of exampleTableCounts (tname usersTable) = Some 2"
    by (simp add: exampleTableCounts_def usersTable_def)
  have h9: "(2::nat) \<noteq> 0" by simp
  have len: "length (ex_data \<lparr>ex_success = True, ex_data = usersRows, ex_error = None\<rparr>) = 2"
    by (simp add: usersRows_def)
  from row_count_mismatch_fails_under_every_policy[OF h1 h2 h3 h4 h5 h6 h7 h8 h9]
  have "syncSingleTable ?env usersTable Map.empty ?sys =
     Some (Inl (Error (''Row count mismatch: expected '' @ showNat 2 @ '', inserted '' @ showNat 1)),
           ?sys\<lparr>world := (), transformationStatsOf := resetStats\<rparr>)"
    unfolding len by simp
  then show ?thesis using h0 ins by simp
qed

text \<open>
  Claim C7 as stated says that under the policy \<open>skip\<close> a mismatch is not a failure. In
  the run above the policy is \<open>skip\<close>, the statement ends with \<open>ON CONFLICT DO NOTHING\<close>,
  one of two rows is inserted, and the table is a failure: \<open>syncSingleTable\<close> raises and
  the loop records the table in \<open>failedTables\<close> without counting it as successful.
\<close>

theorem row_count_mismatch_skip_counterexample:
  "cfg_onConflict (syncConfig (connectedSys skipConfig)) = ''skip'' \<and>
   map_option fst
     (syncSingleTable (exampleServices existingRowConn [usersTable] exampleCounts emptyExtract)
        usersTable Map.empty (connectedSys skipConfig)) =
     Some (Inl (Error ''Row count mismatch: expected 2, inserted 1'')) \<and>
   map_option (\<lambda>s. (successfulTables (syncStats s), failedTables (syncStats s)))
     (syncTable (exampleServices existingRowConn [usersTable] exampleCounts emptyExtract)
        Map.empty exampleTableCounts usersTable (connectedSys skipConfig)) =
     Some (0, [\<lparr>ft_name = ''users'', ft_error = ''Row count mismatch: expected 2, inserted 1'',
                ft_details = ''Unknown error''\<rparr>])"
  by code_simp

text \<open>
  \<open>performDataSync\<close> returns normally only when no table has failed, whatever the
  configuration: \<open>handleSyncFailures\<close> does not read \<open>continueOnError\<close>.
\<close>

lemma performDataSync_normal_return:
  assumes "performDataSync env tables dependencies enumMap tableCounts sys = Some (Inr u, sys')"
  shows "failedTables (syncStats sys') = []"
proof -
  obtain c w1 where c: "connectLocal env (world sys) = (c, w1)"
    by (cases "connectLocal env (world sys)") auto
  show ?thesis
  proof (cases c)
    case (Inl e)
    then show ?thesis using assms c by (simp add: performDataSync_def)
  next
    case (Inr x)
    show ?thesis
    proof (cases "sortTablesByDependencies (map tname tables) dependencies")
      case (Inl e)
      then show ?thesis using assms c \<open>c = Inr x\<close> by (simp add: performDataSync_def)
    next
      case (Inr insertionOrder)
      note order = this
      show ?thesis
      proof (cases "syncTables env enumMap tableCounts (sortedTablesOf tables insertionOrder)
                    (sys\<lparr>world := w1\<rparr>)")
        case None
        then show ?thesis using assms c \<open>c = Inr x\<close> order by (simp add: performDataSync_def)
      next
        case (Some sys2)
        show ?thesis
        proof (cases "length (failedTables (syncStats sys2)) > 0")
          case True
          then show ?thesis using assms c \<open>c = Inr x\<close> order Some
            by (simp add: performDataSync_def split: prod.splits)
        next
          case False
          then show ?thesis using assms c \<open>c = Inr x\<close> order Some
            by (simp add: performDataSync_def)
        qed
      qed
    qed
  qed
qed

text \<open>
  Claim C1, on the source: a run configured as \<open>--ignore-errors\<close> asks
  (\<open>continueOnError = true\<close>, \<open>enableRollback = false\<close>) over the tables \<open>users\<close>, which
  synchronises, and \<open>orders\<close>, whose extraction fails. The claim says that the run
  completes with exit code 0; \<open>executeSync\<close> raises \<open>Database synchronization FAILED - no
  changes applied\<close> and the process exits with code 1.
\<close>

theorem ignore_errors_run_exits_1:
  "continueOnError ignoreErrorsConfig = Some True \<and> \<not> enableRollback ignoreErrorsConfig \<and>
   map_option fst
     (executeSync (exampleServices acceptingConn [usersTable, ordersTable] exampleCounts failingExtract)
        exampleCredentials (initialSys ignoreErrorsConfig)) =
     Some (Inl (Error ''Database synchronization FAILED - no changes applied'')) \<and>
   main (exampleServices acceptingConn [usersTable, ordersTable] exampleCounts failingExtract)
     exampleCredentials (initialSys ignoreErrorsConfig) = Some 1"
  by code_simp

section \<open>Configurator: properties\<close>

text \<open>
  Claim C8, on the source: every required variable is set and \<open>DB_LOCAL_PORT\<close> is
  \<open>1e9\<close>, a number outside 1 to 65535. The claim says that validation fails; it
  succeeds without an error, because \<open>isNaN\<close> judges the whole string (a number) and the
  range check judges \<open>parseInt\<close> of it, which reads the prefix \<open>1\<close>.
\<close>

theorem environment_accepts_port_1e9:
  "ev_success (fst (validateEnvironment (exampleEnv ''1e9''))) \<and>
   allErrors (fst (validateEnvironment (exampleEnv ''1e9''))) = [] \<and>
   \<not> isNaN ''1e9'' \<and> parseInt ''1e9'' = Some 1"
  by code_simp

end
